theory Spec2Isabelle
  imports Main "HOL-Library.Word" "HOL-Library.Monad_Syntax"
begin

section \<open>Typed arrays and JavaScript numbers\<close>

text \<open>
  The encoder of \<^verbatim>\<open>src/lib/image-to-3d-service.ts\<close> works on JavaScript numbers
  (IEEE doubles), on typed arrays (\<^verbatim>\<open>Float32Array\<close>, \<^verbatim>\<open>Uint32Array\<close>,
  \<^verbatim>\<open>Uint16Array\<close>, \<^verbatim>\<open>Uint8Array\<close>) and on \<^verbatim>\<open>DataView\<close>s.

  A \<^verbatim>\<open>Uint8Array\<close> is a list of bytes. An element of a \<^verbatim>\<open>Float32Array\<close> is the
  32-bit pattern of the stored binary32 value, an element of a \<^verbatim>\<open>Uint32Array\<close> or
  \<^verbatim>\<open>Uint16Array\<close> a word of that width. Viewing the \<^verbatim>\<open>.buffer\<close> of a typed array
  through \<^verbatim>\<open>new Uint8Array(...)\<close> gives the bytes of its elements in platform order,
  which is little-endian on every platform the application runs on.

  The floating-point operations themselves (the value of a literal, \<^verbatim>\<open>Math.sin\<close>,
  \<^verbatim>\<open>Math.cos\<close>, \<^verbatim>\<open>Math.PI\<close>, multiplication, division, and the rounding of a
  double to binary32 when it is stored into a \<^verbatim>\<open>Float32Array\<close>) are parameters of
  the model: a record of operations over an arbitrary type \<open>'d\<close> of doubles.
\<close>

type_synonym byte = "8 word"
type_synonym f32 = "32 word"
type_synonym u32 = "32 word"
type_synonym u16 = "16 word"

record 'd jsmath =
  num :: "int \<Rightarrow> 'd"            \<comment> \<open>the double of an integer literal or counter\<close>
  lit :: "string \<Rightarrow> 'd"         \<comment> \<open>the double of a decimal literal such as \<^verbatim>\<open>0.8\<close>\<close>
  PI :: "'d"                    \<comment> \<open>\<^verbatim>\<open>Math.PI\<close>\<close>
  msin :: "'d \<Rightarrow> 'd"            \<comment> \<open>\<^verbatim>\<open>Math.sin\<close>\<close>
  mcos :: "'d \<Rightarrow> 'd"            \<comment> \<open>\<^verbatim>\<open>Math.cos\<close>\<close>
  mul :: "'d \<Rightarrow> 'd \<Rightarrow> 'd"        \<comment> \<open>\<^verbatim>\<open>*\<close> on doubles\<close>
  quot :: "'d \<Rightarrow> 'd \<Rightarrow> 'd"       \<comment> \<open>\<^verbatim>\<open>/\<close> on doubles\<close>
  numtext :: "'d \<Rightarrow> string"     \<comment> \<open>the text \<^verbatim>\<open>JSON.stringify\<close> prints for a double\<close>
  fround :: "'d \<Rightarrow> f32"         \<comment> \<open>the bits a \<^verbatim>\<open>Float32Array\<close> holds after storing a double\<close>

text \<open>\<^verbatim>\<open>new Float32Array(xs)\<close> from an array of numbers.\<close>

definition Float32Array :: "('d, 'm) jsmath_scheme \<Rightarrow> 'd list \<Rightarrow> f32 list" where
  "Float32Array M xs = map (fround M) xs"

text \<open>
  \<^verbatim>\<open>new Uint32Array(xs)\<close> and \<^verbatim>\<open>new Uint16Array(xs)\<close> from an array of
  non-negative integers: each element is reduced modulo \<open>2^32\<close> (\<open>2^16\<close>).
\<close>

definition Uint32Array :: "nat list \<Rightarrow> u32 list" where
  "Uint32Array xs = map word_of_nat xs"

definition Uint16Array :: "nat list \<Rightarrow> u16 list" where
  "Uint16Array xs = map word_of_nat xs"

text \<open>The little-endian bytes of one element.\<close>

definition le32 :: "32 word \<Rightarrow> byte list" where
  "le32 w = [ucast w, ucast (drop_bit 8 w), ucast (drop_bit 16 w), ucast (drop_bit 24 w)]"

definition le16 :: "16 word \<Rightarrow> byte list" where
  "le16 w = [ucast w, ucast (drop_bit 8 w)]"

text \<open>\<^verbatim>\<open>new Uint8Array(a.buffer)\<close> for a 32-bit and for a 16-bit typed array \<open>a\<close>.\<close>

definition bytes32 :: "32 word list \<Rightarrow> byte list" where
  "bytes32 ws = concat (map le32 ws)"

definition bytes16 :: "16 word list \<Rightarrow> byte list" where
  "bytes16 ws = concat (map le16 ws)"

section \<open>GeometryGenerator: the UV sphere\<close>

record sphere =
  vertices :: "f32 list"
  indices :: "u32 list"
  normals :: "f32 list"

text \<open>
  The inner loop of the first nest of \<^verbatim>\<open>generateUVSphere\<close>
  (\<^verbatim>\<open>for (let j = 0; j <= sectors; j++)\<close>), on the pair of the arrays
  \<^verbatim>\<open>vertices\<close> and \<^verbatim>\<open>normals\<close>. The radius is the constant 1.
\<close>

function sector_loop ::
  "('d, 'm) jsmath_scheme \<Rightarrow> 'd \<Rightarrow> 'd \<Rightarrow> nat \<Rightarrow> nat \<Rightarrow> 'd list \<times> 'd list \<Rightarrow> 'd list \<times> 'd list"
where
  "sector_loop M xy z sectors j (vs, ns) =
     (if j \<le> sectors then
        let radius = num M 1;
            sectorAngle = quot M (mul M (mul M (num M 2) (PI M)) (num M (int j))) (num M (int sectors));
            x = mul M xy (mcos M sectorAngle);
            y = mul M xy (msin M sectorAngle)
        in sector_loop M xy z sectors (j + 1)
             (vs @ [x, y, z], ns @ [quot M x radius, quot M y radius, quot M z radius])
      else (vs, ns))"
  by pat_completeness auto
termination
  by (relation "measure (\<lambda>(M, xy, z, sectors, j, acc). Suc sectors - j)") auto

declare sector_loop.simps [simp del]

text \<open>The outer loop \<^verbatim>\<open>for (let i = 0; i <= rings; i++)\<close>.\<close>

function ring_loop ::
  "('d, 'm) jsmath_scheme \<Rightarrow> nat \<Rightarrow> nat \<Rightarrow> nat \<Rightarrow> 'd list \<times> 'd list \<Rightarrow> 'd list \<times> 'd list"
where
  "ring_loop M rings sectors i acc =
     (if i \<le> rings then
        let radius = num M 1;
            ringAngle = quot M (mul M (PI M) (num M (int i))) (num M (int rings));
            xy = mul M radius (msin M ringAngle);
            z = mul M radius (mcos M ringAngle)
        in ring_loop M rings sectors (i + 1) (sector_loop M xy z sectors 0 acc)
      else acc)"
  by pat_completeness auto
termination
  by (relation "measure (\<lambda>(M, rings, sectors, i, acc). Suc rings - i)") auto

declare ring_loop.simps [simp del]

text \<open>
  The inner loop of the second nest
  (\<^verbatim>\<open>for (let j = 0; j < sectors; j++, k1++, k2++)\<close>) on the array \<^verbatim>\<open>indices\<close>.
  The comparison \<^verbatim>\<open>i !== rings - 1\<close> is on integers, not on naturals.
\<close>

function quad_loop :: "nat \<Rightarrow> nat \<Rightarrow> nat \<Rightarrow> nat \<Rightarrow> nat \<Rightarrow> nat \<Rightarrow> nat list \<Rightarrow> nat list" where
  "quad_loop i rings sectors j k1 k2 idx =
     (if j < sectors then
        let idx1 = (if i \<noteq> 0 then idx @ [k1, k2, k1 + 1] else idx);
            idx2 = (if int i \<noteq> int rings - 1 then idx1 @ [k1 + 1, k2, k2 + 1] else idx1)
        in quad_loop i rings sectors (j + 1) (k1 + 1) (k2 + 1) idx2
      else idx)"
  by pat_completeness auto
termination
  by (relation "measure (\<lambda>(i, rings, sectors, j, k1, k2, idx). sectors - j)") auto

declare quad_loop.simps [simp del]

text \<open>The outer loop \<^verbatim>\<open>for (let i = 0; i < rings; i++)\<close>.\<close>

function strip_loop :: "nat \<Rightarrow> nat \<Rightarrow> nat \<Rightarrow> nat list \<Rightarrow> nat list" where
  "strip_loop rings sectors i idx =
     (if i < rings then
        let k1 = i * (sectors + 1);
            k2 = k1 + sectors + 1
        in strip_loop rings sectors (i + 1) (quad_loop i rings sectors 0 k1 k2 idx)
      else idx)"
  by pat_completeness auto
termination
  by (relation "measure (\<lambda>(rings, sectors, i, idx). rings - i)") auto

declare strip_loop.simps [simp del]

definition generateUVSphere :: "('d, 'm) jsmath_scheme \<Rightarrow> nat \<Rightarrow> sphere" where
  "generateUVSphere M subdivisions =
     (let rings = subdivisions;
          sectors = subdivisions * 2;
          (vs, ns) = ring_loop M rings sectors 0 ([], []);
          idx = strip_loop rings sectors 0 []
      in \<lparr> vertices = Float32Array M vs, indices = Uint32Array idx, normals = Float32Array M ns \<rparr>)"

text \<open>
  The tessellation parameter of \<^verbatim>\<open>createPhotogrammetryModel\<close>:
  \<^verbatim>\<open>Math.min(8, 2 + Math.floor(imageCount / 5))\<close>.
\<close>

definition subdivisions_of :: "nat \<Rightarrow> nat" where
  "subdivisions_of imageCount = min 8 (2 + imageCount div 5)"

section \<open>AttributeColorizer\<close>

text \<open>
  \<^verbatim>\<open>generateVertexColors(vertexCount, imageColors)\<close>. A color is the
  three-element array that \<^verbatim>\<open>extractImageColors\<close> pushes. The array \<^verbatim>\<open>colors\<close> is a
  \<^verbatim>\<open>Float32Array\<close> of \<^verbatim>\<open>vertexCount * 4\<close> zeros that the loop writes by index.

  For an empty \<^verbatim>\<open>imageColors\<close> the index \<^verbatim>\<open>i % 0\<close> is \<^verbatim>\<open>NaN\<close>, the
  element read is \<^verbatim>\<open>undefined\<close> and \<^verbatim>\<open>||\<close> selects the default; an element
  that exists is an array, which is truthy.
\<close>

type_synonym 'd color = "'d \<times> 'd \<times> 'd"

function color_loop ::
  "('d, 'm) jsmath_scheme \<Rightarrow> nat \<Rightarrow> 'd color list \<Rightarrow> nat \<Rightarrow> f32 list \<Rightarrow> f32 list"
where
  "color_loop M vertexCount imageColors i colors =
     (if i < vertexCount then
        let (r, g, b) =
              (if imageColors = [] then (lit M ''0.8'', lit M ''0.8'', lit M ''0.8'')
               else imageColors ! (i mod length imageColors));
            colors = colors[i * 4 := fround M r];
            colors = colors[i * 4 + 1 := fround M g];
            colors = colors[i * 4 + 2 := fround M b];
            colors = colors[i * 4 + 3 := fround M (num M 1)]
        in color_loop M vertexCount imageColors (i + 1) colors
      else colors)"
  by pat_completeness auto
termination
  by (relation "measure (\<lambda>(M, vertexCount, imageColors, i, colors). vertexCount - i)") auto

declare color_loop.simps [simp del]

definition generateVertexColors ::
  "('d, 'm) jsmath_scheme \<Rightarrow> nat \<Rightarrow> 'd color list \<Rightarrow> f32 list"
where
  "generateVertexColors M vertexCount imageColors =
     color_loop M vertexCount imageColors 0 (replicate (vertexCount * 4) 0)"

section \<open>BufferPacker: writes into byte arrays\<close>

text \<open>
  \<^verbatim>\<open>dst.set(src, off)\<close> on a \<^verbatim>\<open>Uint8Array\<close> throws a \<^verbatim>\<open>RangeError\<close> when the
  source does not fit; \<open>None\<close> is that exception.
\<close>

definition u8_set :: "byte list \<Rightarrow> byte list \<Rightarrow> nat \<Rightarrow> byte list option" where
  "u8_set dst src off =
     (if off + length src \<le> length dst
      then Some (take off dst @ src @ drop (off + length src) dst)
      else None)"

text \<open>
  \<^verbatim>\<open>view.setUint32(off, v, true)\<close> on a \<^verbatim>\<open>DataView\<close>: the value modulo \<open>2^32\<close>,
  little-endian; a \<^verbatim>\<open>RangeError\<close> outside the buffer.
\<close>

definition setUint32 :: "byte list \<Rightarrow> nat \<Rightarrow> nat \<Rightarrow> byte list option" where
  "setUint32 buf off v =
     (if off + 4 \<le> length buf
      then Some (take off buf @ le32 (word_of_nat v) @ drop (off + 4) buf)
      else None)"

text \<open>
  The sphere path of \<^verbatim>\<open>createPhotogrammetryModel\<close> (source lines 179 to 190):
  the four byte ranges are written in the order vertices, indices, normals, colors.
\<close>

definition sphere_binData ::
  "byte list \<Rightarrow> byte list \<Rightarrow> byte list \<Rightarrow> byte list \<Rightarrow> byte list option"
where
  "sphere_binData vertexBin indicesBin normalsBin colorBin =
     (let binDataLength =
            length vertexBin + length indicesBin + length normalsBin + length colorBin;
          binData = replicate binDataLength 0;
          offset = 0
      in do {
        binData \<leftarrow> u8_set binData vertexBin offset;
        let offset = offset + length vertexBin;
        binData \<leftarrow> u8_set binData indicesBin offset;
        let offset = offset + length indicesBin;
        binData \<leftarrow> u8_set binData normalsBin offset;
        let offset = offset + length normalsBin;
        binData \<leftarrow> u8_set binData colorBin offset;
        Some binData
      })"

text \<open>The cube path of \<^verbatim>\<open>createCubeGLB\<close> (source lines 493 to 498).\<close>

definition cube_binData :: "byte list \<Rightarrow> byte list \<Rightarrow> byte list \<Rightarrow> byte list option" where
  "cube_binData vertexBin indicesBin normalsBin =
     (let binDataLength = length vertexBin + length indicesBin + length normalsBin;
          binData = replicate binDataLength 0
      in do {
        binData \<leftarrow> u8_set binData vertexBin 0;
        binData \<leftarrow> u8_set binData indicesBin (length vertexBin);
        binData \<leftarrow> u8_set binData normalsBin (length vertexBin + length indicesBin);
        Some binData
      })"

section \<open>SceneDescriptionBuilder\<close>

text \<open>
  The value handed to \<^verbatim>\<open>JSON.stringify\<close>. Object members keep their insertion order.
  \<open>JDec\<close> is a non-integral literal with the text JavaScript prints for it
  (\<^verbatim>\<open>0.3\<close>); \<open>JQuot a b\<close> is the number \<^verbatim>\<open>a / b\<close> of two array lengths.
\<close>

datatype json =
    JInt int
  | JDec string
  | JQuot nat nat
  | JStr string
  | JArr "json list"
  | JObj "(string \<times> json) list"

fun show_nat :: "nat \<Rightarrow> string" where
  "show_nat n =
     (if n < 10 then [char_of (48 + n)]
      else show_nat (n div 10) @ [char_of (48 + n mod 10)])"

definition show_int :: "int \<Rightarrow> string" where
  "show_int i = (if i < 0 then CHR ''-'' # show_nat (nat (- i)) else show_nat (nat i))"

fun join :: "string \<Rightarrow> string list \<Rightarrow> string" where
  "join sep [] = []"
| "join sep [x] = x"
| "join sep (x # y # ys) = x @ sep @ join sep (y # ys)"

text \<open>
  A string between double quotes. None of the strings of the two scene descriptions has
  a character that \<^verbatim>\<open>JSON.stringify\<close> escapes.
\<close>

definition quoted :: "string \<Rightarrow> string" where
  "quoted s = [CHR 0x22] @ s @ [CHR 0x22]"

fun stringify :: "('d, 'm) jsmath_scheme \<Rightarrow> json \<Rightarrow> string" where
  "stringify M (JInt i) = show_int i"
| "stringify M (JDec s) = s"
| "stringify M (JQuot a b) =
     (if b = 0 then ''null''
      else if b dvd a then show_nat (a div b)
      else numtext M (quot M (num M (int a)) (num M (int b))))"
| "stringify M (JStr s) = quoted s"
| "stringify M (JArr xs) = ''['' @ join '','' (map (stringify M) xs) @ '']''"
| "stringify M (JObj kvs) =
     ''{'' @ join '','' (map (\<lambda>(k, v). quoted k @ '':'' @ stringify M v) kvs) @ ''}''"

text \<open>\<^verbatim>\<open>new TextEncoder().encode(s)\<close> on an ASCII string.\<close>

definition encode :: "string \<Rightarrow> byte list" where
  "encode s = map of_char s"

text \<open>
  One entry of \<^verbatim>\<open>bufferViews\<close> (the member \<^verbatim>\<open>buffer\<close> is always 0) and one entry
  of \<^verbatim>\<open>accessors\<close>. The member \<^verbatim>\<open>count\<close> is a quotient of two integers: the sphere
  path writes \<^verbatim>\<open>vertices.length / 3\<close>, the cube path a literal.
\<close>

record bufferView =
  byteOffset :: nat
  byteLength :: nat
  target :: nat

record accessor =
  acc_bufferView :: nat
  componentType :: nat
  count_num :: nat
  count_den :: nat
  acc_type :: string
  has_bounds :: bool

definition json_of_bufferView :: "bufferView \<Rightarrow> json" where
  "json_of_bufferView v =
     JObj [(''buffer'', JInt 0),
           (''byteOffset'', JInt (int (byteOffset v))),
           (''byteLength'', JInt (int (byteLength v))),
           (''target'', JInt (int (target v)))]"

definition json_of_accessor :: "accessor \<Rightarrow> json" where
  "json_of_accessor a =
     JObj ([(''bufferView'', JInt (int (acc_bufferView a))),
            (''componentType'', JInt (int (componentType a))),
            (''count'', JQuot (count_num a) (count_den a)),
            (''type'', JStr (acc_type a))]
           @ (if has_bounds a
              then [(''min'', JArr [JInt (- 1), JInt (- 1), JInt (- 1)]),
                    (''max'', JArr [JInt 1, JInt 1, JInt 1])]
              else []))"

text \<open>The accessors and buffer views of the sphere path (source lines 219 to 272).\<close>

definition sphere_accessors :: "f32 list \<Rightarrow> u32 list \<Rightarrow> f32 list \<Rightarrow> f32 list \<Rightarrow> accessor list" where
  "sphere_accessors vs idx ns vertexColors =
     [\<lparr> acc_bufferView = 0, componentType = 5126, count_num = length vs, count_den = 3,
        acc_type = ''VEC3'', has_bounds = True \<rparr>,
      \<lparr> acc_bufferView = 1, componentType = 5126, count_num = length ns, count_den = 3,
        acc_type = ''VEC3'', has_bounds = False \<rparr>,
      \<lparr> acc_bufferView = 2, componentType = 5126, count_num = length vertexColors, count_den = 4,
        acc_type = ''VEC4'', has_bounds = False \<rparr>,
      \<lparr> acc_bufferView = 3, componentType = 5125, count_num = length idx, count_den = 1,
        acc_type = ''SCALAR'', has_bounds = False \<rparr>]"

definition sphere_bufferViews ::
  "byte list \<Rightarrow> byte list \<Rightarrow> byte list \<Rightarrow> byte list \<Rightarrow> bufferView list"
where
  "sphere_bufferViews vertexBin indicesBin normalsBin colorBin =
     [\<lparr> byteOffset = 0, byteLength = length vertexBin, target = 34962 \<rparr>,
      \<lparr> byteOffset = length vertexBin, byteLength = length normalsBin, target = 34962 \<rparr>,
      \<lparr> byteOffset = length vertexBin + length normalsBin, byteLength = length colorBin,
        target = 34962 \<rparr>,
      \<lparr> byteOffset = length vertexBin + length normalsBin + length colorBin,
        byteLength = length indicesBin, target = 34963 \<rparr>]"

definition sphere_glTF :: "accessor list \<Rightarrow> bufferView list \<Rightarrow> nat \<Rightarrow> json" where
  "sphere_glTF accessors bufferViews binDataLength =
     JObj [
       (''asset'', JObj [(''version'', JStr ''2.0''),
                         (''generator'', JStr ''Dimensionally Photogrammetry'')]),
       (''scene'', JInt 0),
       (''scenes'', JArr [JObj [(''nodes'', JArr [JInt 0])]]),
       (''nodes'', JArr [JObj [(''mesh'', JInt 0)]]),
       (''meshes'', JArr [JObj [(''primitives'', JArr [JObj [
           (''attributes'', JObj [(''POSITION'', JInt 0), (''NORMAL'', JInt 1),
                                  (''COLOR_0'', JInt 2)]),
           (''indices'', JInt 3),
           (''material'', JInt 0)]])]]),
       (''materials'', JArr [JObj [
           (''name'', JStr ''Material''),
           (''pbrMetallicRoughness'', JObj [
               (''baseColorFactor'', JArr [JInt 1, JInt 1, JInt 1, JInt 1]),
               (''metallicFactor'', JDec ''0.3''),
               (''roughnessFactor'', JDec ''0.7'')])]]),
       (''accessors'', JArr (map json_of_accessor accessors)),
       (''bufferViews'', JArr (map json_of_bufferView bufferViews)),
       (''buffers'', JArr [JObj [(''byteLength'', JInt (int binDataLength))]])]"

text \<open>The fixed tables, accessors and buffer views of the cube path (source lines 459 to 568).\<close>

definition cube_vertices :: "int list" where
  "cube_vertices =
     [- 1, - 1, - 1,
      1, - 1, - 1,
      1, 1, - 1,
      - 1, 1, - 1,
      - 1, - 1, 1,
      1, - 1, 1,
      1, 1, 1,
      - 1, 1, 1]"

definition cube_indices :: "nat list" where
  "cube_indices =
     [0, 1, 2, 2, 3, 0,
      5, 4, 7, 7, 6, 5,
      4, 5, 1, 1, 0, 4,
      3, 2, 6, 6, 7, 3,
      4, 0, 3, 3, 7, 4,
      1, 5, 6, 6, 2, 1]"

definition cube_normals :: "int list" where
  "cube_normals =
     [0, 0, - 1, 0, 0, - 1, 0, 0, - 1, 0, 0, - 1, 0, 0, 1, 0, 0, 1, 0, 0, 1, 0, 0,
      1, 0, - 1, 0, 0, - 1, 0, 0, - 1, 0, 0, - 1, 0, 0, 1, 0, 0, 1, 0, 0, 1, 0, 0,
      1, 0, - 1, 0, 0, - 1, 0, 0, - 1, 0, 0, - 1, 0, 1, 0, 1, 0, 1, 0, 1, 0, 1, 0,
      1, 0]"

definition cube_accessors :: "accessor list" where
  "cube_accessors =
     [\<lparr> acc_bufferView = 0, componentType = 5126, count_num = 8, count_den = 1,
        acc_type = ''VEC3'', has_bounds = True \<rparr>,
      \<lparr> acc_bufferView = 1, componentType = 5125, count_num = 36, count_den = 1,
        acc_type = ''SCALAR'', has_bounds = False \<rparr>,
      \<lparr> acc_bufferView = 2, componentType = 5126, count_num = 24, count_den = 1,
        acc_type = ''VEC3'', has_bounds = False \<rparr>]"

definition cube_bufferViews :: "byte list \<Rightarrow> byte list \<Rightarrow> byte list \<Rightarrow> bufferView list" where
  "cube_bufferViews vertexBin indicesBin normalsBin =
     [\<lparr> byteOffset = 0, byteLength = length vertexBin, target = 34962 \<rparr>,
      \<lparr> byteOffset = length vertexBin, byteLength = length indicesBin, target = 34963 \<rparr>,
      \<lparr> byteOffset = length vertexBin + length indicesBin, byteLength = length normalsBin,
        target = 34962 \<rparr>]"

definition cube_glTF :: "accessor list \<Rightarrow> bufferView list \<Rightarrow> nat \<Rightarrow> json" where
  "cube_glTF accessors bufferViews binDataLength =
     JObj [
       (''asset'', JObj [(''version'', JStr ''2.0''), (''generator'', JStr ''Dimensionally'')]),
       (''scene'', JInt 0),
       (''scenes'', JArr [JObj [(''nodes'', JArr [JInt 0])]]),
       (''nodes'', JArr [JObj [(''mesh'', JInt 0)]]),
       (''meshes'', JArr [JObj [(''primitives'', JArr [JObj [
           (''attributes'', JObj [(''POSITION'', JInt 0), (''NORMAL'', JInt 2)]),
           (''indices'', JInt 1),
           (''material'', JInt 0)]])]]),
       (''materials'', JArr [JObj [
           (''name'', JStr ''Material''),
           (''pbrMetallicRoughness'', JObj [
               (''baseColorFactor'', JArr [JDec ''0.8'', JDec ''0.8'', JDec ''0.8'', JInt 1]),
               (''metallicFactor'', JDec ''0.5''),
               (''roughnessFactor'', JDec ''0.5'')])]]),
       (''accessors'', JArr (map json_of_accessor accessors)),
       (''bufferViews'', JArr (map json_of_bufferView bufferViews)),
       (''buffers'', JArr [JObj [(''byteLength'', JInt (int binDataLength))]])]"

section \<open>ContainerAssembler\<close>

text \<open>
  Padding to a 4-byte boundary, the same text in both paths (source lines 280 to 294 and
  576 to 592): a zeroed array of the padded length, the payload copied to its start, and
  a loop that writes the fill byte behind it. A write by index outside a typed array is
  ignored, as \<open>list_update\<close> is.
\<close>

function fill_loop :: "byte \<Rightarrow> nat \<Rightarrow> nat \<Rightarrow> nat \<Rightarrow> byte list \<Rightarrow> byte list" where
  "fill_loop v base needed i chunk =
     (if i < needed then fill_loop v base needed (i + 1) (chunk[base + i := v]) else chunk)"
  by pat_completeness auto
termination
  by (relation "measure (\<lambda>(v, base, needed, i, chunk). needed - i)") auto

declare fill_loop.simps [simp del]

definition pad_chunk :: "byte \<Rightarrow> byte list \<Rightarrow> byte list option" where
  "pad_chunk v buf =
     (let paddingNeeded = (4 - length buf mod 4) mod 4;
          chunk = replicate (length buf + paddingNeeded) 0
      in do {
        chunk \<leftarrow> u8_set chunk buf 0;
        Some (fill_loop v (length buf) paddingNeeded 0 chunk)
      })"

definition jsonChunk_of :: "byte list \<Rightarrow> byte list option" where
  "jsonChunk_of jsonBuf = pad_chunk 0x20 jsonBuf"

definition binChunk_of :: "byte list \<Rightarrow> byte list option" where
  "binChunk_of binData = pad_chunk 0 binData"

text \<open>
  The header, the two chunk headers and the final concatenation, the same text in both
  paths (source lines 296 to 342 and 594 to 643).
\<close>

definition glb_header :: "byte list \<Rightarrow> byte list \<Rightarrow> byte list option" where
  "glb_header jsonChunk binChunk =
     do {
       header \<leftarrow> setUint32 (replicate 20 0) 0 0x46546c47;
       header \<leftarrow> setUint32 header 4 2;
       let fileLength = 20 + 8 + length jsonChunk + 8 + length binChunk;
       setUint32 header 8 fileLength
     }"

definition chunk_header :: "byte list \<Rightarrow> nat \<Rightarrow> byte list option" where
  "chunk_header chunk tag =
     do {
       h \<leftarrow> setUint32 (replicate 8 0) 0 (length chunk);
       setUint32 h 4 tag
     }"

definition assemble_glb :: "byte list \<Rightarrow> byte list \<Rightarrow> byte list option" where
  "assemble_glb jsonChunk binChunk =
     do {
       headerBytes \<leftarrow> glb_header jsonChunk binChunk;
       jsonHeaderBytes \<leftarrow> chunk_header jsonChunk 0x4e4f534a;
       binHeaderBytes \<leftarrow> chunk_header binChunk 0x004e4942;
       let totalLength = length headerBytes + length jsonHeaderBytes + length jsonChunk
                         + length binHeaderBytes + length binChunk;
       let glbFile = replicate totalLength 0;
       let pos = 0;
       glbFile \<leftarrow> u8_set glbFile headerBytes pos;
       let pos = pos + length headerBytes;
       glbFile \<leftarrow> u8_set glbFile jsonHeaderBytes pos;
       let pos = pos + length jsonHeaderBytes;
       glbFile \<leftarrow> u8_set glbFile jsonChunk pos;
       let pos = pos + length jsonChunk;
       glbFile \<leftarrow> u8_set glbFile binHeaderBytes pos;
       let pos = pos + length binHeaderBytes;
       glbFile \<leftarrow> u8_set glbFile binChunk pos;
       Some glbFile
     }"

section \<open>The two producers\<close>

text \<open>
  The mesh of the sphere path: the sphere of \<^verbatim>\<open>generateUVSphere\<close> and the colors of
  \<^verbatim>\<open>generateVertexColors(vertices.length, colors)\<close>, where \<^verbatim>\<open>vertices\<close> is the
  \<^verbatim>\<open>Float32Array\<close> of the coordinates (source lines 166 to 171).
\<close>

definition sphere_colors :: "('d, 'm) jsmath_scheme \<Rightarrow> 'd color list \<Rightarrow> nat \<Rightarrow> f32 list" where
  "sphere_colors M colors imageCount =
     (let g = generateUVSphere M (subdivisions_of imageCount)
      in generateVertexColors M (length (vertices g)) colors)"

definition createPhotogrammetryModel ::
  "('d, 'm) jsmath_scheme \<Rightarrow> 'd color list \<Rightarrow> nat \<Rightarrow> byte list option"
where
  "createPhotogrammetryModel M colors imageCount =
     (let subdivisions = subdivisions_of imageCount;
          g = generateUVSphere M subdivisions;
          vertexColors = generateVertexColors M (length (vertices g)) colors;
          vertexBin = bytes32 (vertices g);
          indicesBin = bytes32 (indices g);
          normalsBin = bytes32 (normals g);
          colorBin = bytes32 vertexColors
      in do {
        binData \<leftarrow> sphere_binData vertexBin indicesBin normalsBin colorBin;
        let glTF = sphere_glTF (sphere_accessors (vertices g) (indices g) (normals g) vertexColors)
                     (sphere_bufferViews vertexBin indicesBin normalsBin colorBin)
                     (length binData);
        let jsonStr = stringify M glTF;
        let jsonBuf = encode jsonStr;
        jsonChunk \<leftarrow> jsonChunk_of jsonBuf;
        binChunk \<leftarrow> binChunk_of binData;
        assemble_glb jsonChunk binChunk
      })"

definition createCubeGLB :: "('d, 'm) jsmath_scheme \<Rightarrow> byte list option" where
  "createCubeGLB M =
     (let vs = Float32Array M (map (num M) cube_vertices);
          idx = Uint16Array cube_indices;
          ns = Float32Array M (map (num M) cube_normals);
          vertexBin = bytes32 vs;
          indicesBin = bytes16 idx;
          normalsBin = bytes32 ns
      in do {
        binData \<leftarrow> cube_binData vertexBin indicesBin normalsBin;
        let glTF = cube_glTF cube_accessors (cube_bufferViews vertexBin indicesBin normalsBin)
                     (length binData);
        let jsonStr = stringify M glTF;
        let jsonBuf = encode jsonStr;
        jsonChunk \<leftarrow> jsonChunk_of jsonBuf;
        binChunk \<leftarrow> binChunk_of binData;
        assemble_glb jsonChunk binChunk
      })"

section \<open>The conversion entry points\<close>

text \<open>
  A \<^verbatim>\<open>File\<close> is its MIME type and what sampling its one-pixel rendering gives in
  \<^verbatim>\<open>extractImageColors\<close>: the red, green and blue bytes, no 2D context (nothing is
  pushed), or a failure to load or draw (the default gray is pushed).
\<close>

datatype pixel = Sampled byte byte byte | NoContext | LoadFailed

record File =
  ftype :: string
  pixel :: pixel

record blob =
  blob_bytes :: "byte list"
  blob_type :: string

text \<open>A rejected promise: an \<^verbatim>\<open>Error\<close> with its message, or a \<^verbatim>\<open>RangeError\<close>.\<close>

datatype failure = Error string | RangeError

text \<open>
  The exporters of the 3D library, which are not part of this repository, applied to the
  fixed scene of \<^verbatim>\<open>createCubeScene\<close>: the bytes or the text they produce, or the
  text of the error they report. \<open>date_iso\<close> is \<^verbatim>\<open>new Date().toISOString()\<close>.
\<close>

record three =
  glb_export :: "string + byte list"
  gltf_export :: "string + string"
  obj_export :: "string + string"
  stl_export :: "string + string"
  date_iso :: string

fun extract_loop :: "('d, 'm) jsmath_scheme \<Rightarrow> File list \<Rightarrow> 'd color list \<Rightarrow> 'd color list" where
  "extract_loop M [] colors = colors"
| "extract_loop M (f # files) colors =
     extract_loop M files
       (case pixel f of
          Sampled r g b \<Rightarrow>
            colors @ [(quot M (num M (uint r)) (num M 255),
                       quot M (num M (uint g)) (num M 255),
                       quot M (num M (uint b)) (num M 255))]
        | NoContext \<Rightarrow> colors
        | LoadFailed \<Rightarrow> colors @ [(lit M ''0.8'', lit M ''0.8'', lit M ''0.8'')])"

definition extractImageColors :: "('d, 'm) jsmath_scheme \<Rightarrow> File list \<Rightarrow> 'd color list" where
  "extractImageColors M files = extract_loop M files []"

text \<open>
  \<^verbatim>\<open>options.onProgress?.(p)\<close>: the percentages delivered so far, in order; nothing is
  delivered when no callback is supplied.
\<close>

definition emit :: "bool \<Rightarrow> nat \<Rightarrow> nat list \<Rightarrow> nat list" where
  "emit cb p tr = (if cb then tr @ [p] else tr)"

definition newline :: string where
  "newline = [CHR 0x0A]"

definition convertObjToDae :: "string \<Rightarrow> string \<Rightarrow> string" where
  \<open>convertObjToDae timestamp objString = join newline [
      ''<?xml version="1.0" encoding="utf-8"?>'',
      ''<COLLADA xmlns="http://www.collada.org/2005/11/COLLADASchema" version="1.4.1">'',
      ''  <asset>'',
      ''    <created>'' @ timestamp @ ''</created>'',
      ''    <modified>'' @ timestamp @ ''</modified>'',
      ''    <unit meter="1.0" name="meter"/>'',
      ''    <up_axis>Z_UP</up_axis>'',
      ''  </asset>'',
      ''  <library_geometries>'',
      ''    <geometry id="Geometry0" name="Geometry0">'',
      ''      <mesh>'',
      ''        <!-- OBJ to DAE conversion: Original OBJ data -->'',
      ''        <source id="Geometry0-positions">'',
      ''          <float_array id="Geometry0-positions-array" count="0">'',
      ''            <!-- Vertex position data would be converted here -->'',
      ''          </float_array>'',
      ''          <technique_common>'',
      ''            <accessor source="#Geometry0-positions-array" count="0" stride="3">'',
      ''              <param name="X" type="float"/>'',
      ''              <param name="Y" type="float"/>'',
      ''              <param name="Z" type="float"/>'',
      ''            </accessor>'',
      ''          </technique_common>'',
      ''        </source>'',
      ''        <vertices id="Geometry0-vertices">'',
      ''          <input semantic="POSITION" source="#Geometry0-positions"/>'',
      ''        </vertices>'',
      ''        <triangles count="0">'',
      ''          <input semantic="VERTEX" source="#Geometry0-vertices" offset="0"/>'',
      ''        </triangles>'',
      ''      </mesh>'',
      ''    </geometry>'',
      ''  </library_geometries>'',
      ''  <library_visual_scenes>'',
      ''    <visual_scene id="Scene" name="Scene">'',
      ''      <node id="Geometry0_node" name="Geometry0_node" type="NODE">'',
      ''        <instance_geometry url="#Geometry0"/>'',
      ''      </node>'',
      ''    </visual_scene>'',
      ''  </library_visual_scenes>'',
      ''  <scene>'',
      ''    <instance_visual_scene url="#Scene"/>'',
      ''  </scene>'',
      ''</COLLADA>'']\<close>

definition exportAsGLB :: "('t) three_scheme \<Rightarrow> failure + blob" where
  "exportAsGLB T =
     (case glb_export T of
        Inr data \<Rightarrow> Inr \<lparr> blob_bytes = data, blob_type = ''model/gltf-binary'' \<rparr>
      | Inl e \<Rightarrow> Inl (Error (''GLB export failed: '' @ e)))"

definition exportAsGLTF :: "('t) three_scheme \<Rightarrow> failure + blob" where
  "exportAsGLTF T =
     (case gltf_export T of
        Inr txt \<Rightarrow> Inr \<lparr> blob_bytes = encode txt, blob_type = ''application/json'' \<rparr>
      | Inl e \<Rightarrow> Inl (Error (''GLTF export failed: '' @ e)))"

definition exportAsOBJ :: "('t) three_scheme \<Rightarrow> failure + blob" where
  "exportAsOBJ T =
     (case obj_export T of
        Inr objString \<Rightarrow> Inr \<lparr> blob_bytes = encode objString, blob_type = ''text/plain'' \<rparr>
      | Inl e \<Rightarrow> Inl (Error (''OBJ export failed: '' @ e)))"

definition exportAsSTL :: "('t) three_scheme \<Rightarrow> failure + blob" where
  "exportAsSTL T =
     (case stl_export T of
        Inr stlString \<Rightarrow> Inr \<lparr> blob_bytes = encode stlString, blob_type = ''model/stl'' \<rparr>
      | Inl e \<Rightarrow> Inl (Error (''STL export failed: '' @ e)))"

definition exportAsDAE :: "('t) three_scheme \<Rightarrow> failure + blob" where
  "exportAsDAE T =
     (case obj_export T of
        Inr objString \<Rightarrow>
          Inr \<lparr> blob_bytes = encode (convertObjToDae (date_iso T) objString),
                blob_type = ''model/vnd.collada+xml'' \<rparr>
      | Inl e \<Rightarrow> Inl (Error (''DAE export failed: '' @ e)))"

text \<open>\<^verbatim>\<open>exportScene(scene, format)\<close> on the scene of \<^verbatim>\<open>createCubeScene()\<close>.\<close>

definition exportScene :: "('t) three_scheme \<Rightarrow> string \<Rightarrow> failure + blob" where
  "exportScene T format =
     (if format = ''GLB'' then exportAsGLB T
      else if format = ''GLTF'' then exportAsGLTF T
      else if format = ''OBJ'' then exportAsOBJ T
      else if format = ''STL'' then exportAsSTL T
      else if format = ''DAE'' then exportAsDAE T
      else if format = ''FBX'' \<or> format = ''USDZ'' then exportAsGLB T
      else Inl (Error (''Unsupported format: '' @ format)))"

text \<open>
  \<^verbatim>\<open>exportSceneToFormat(format, options)\<close>: the progress delivered and the outcome.
  Its arguments are the format and the options; it builds its own scene.
\<close>

definition exportSceneToFormat ::
  "('t) three_scheme \<Rightarrow> string \<Rightarrow> bool \<Rightarrow> nat list \<Rightarrow> nat list \<times> (failure + blob)"
where
  "exportSceneToFormat T format cb tr =
     (let tr = emit cb 50 tr
      in case exportScene T format of
           Inr b \<Rightarrow> (tr, Inr b)
         | Inl (Error msg) \<Rightarrow> (tr, Inl (Error (''Export to '' @ format @ '' failed: '' @ msg)))
         | Inl RangeError \<Rightarrow> (tr, Inl (Error (''Export to '' @ format @ '' failed: Unknown error''))))"

text \<open>
  \<^verbatim>\<open>generateModelFromPhotogrammetry(files, format, options)\<close>. The container of
  \<^verbatim>\<open>createPhotogrammetryModel\<close> is bound to the local \<^verbatim>\<open>glbArrayBuffer\<close>, which no
  later statement reads; the value returned is the blob of \<^verbatim>\<open>exportSceneToFormat\<close>.
\<close>

definition generateModelFromPhotogrammetry ::
  "('d, 'm) jsmath_scheme \<Rightarrow> ('t) three_scheme \<Rightarrow> File list \<Rightarrow> string \<Rightarrow> bool \<Rightarrow> nat list
     \<Rightarrow> nat list \<times> (failure + blob)"
where
  "generateModelFromPhotogrammetry M T files format cb tr =
     (let tr = emit cb 50 tr;
          colors = extractImageColors M files;
          tr = emit cb 70 tr
      in case createPhotogrammetryModel M colors (length files) of
           None \<Rightarrow> (tr, Inl RangeError)
         | Some glbArrayBuffer \<Rightarrow>
             (let tr = emit cb 85 tr
              in case exportSceneToFormat T format cb tr of
                   (tr, Inl e) \<Rightarrow> (tr, Inl e)
                 | (tr, Inr b) \<Rightarrow> (emit cb 100 tr, Inr b)))"

text \<open>\<^verbatim>\<open>String.prototype.toUpperCase\<close> and \<^verbatim>\<open>startsWith\<close> on ASCII strings.\<close>

definition upper_char :: "char \<Rightarrow> char" where
  "upper_char c =
     (let n = (of_char c :: nat) in if 97 \<le> n \<and> n \<le> 122 then char_of (n - 32) else c)"

definition toUpperCase :: "string \<Rightarrow> string" where
  "toUpperCase s = map upper_char s"

definition startsWith :: "string \<Rightarrow> string \<Rightarrow> bool" where
  "startsWith s p = (take (length p) s = p)"

definition supportedFormats :: "string list" where
  "supportedFormats = [''GLB'', ''GLTF'', ''OBJ'', ''STL'', ''FBX'', ''USDZ'', ''DAE'']"

text \<open>
  \<^verbatim>\<open>convertPhotogrammetry(files, outputFormat, options)\<close>. The two validation errors
  are thrown inside the \<^verbatim>\<open>try\<close> block and rethrown with the prefix. The promise of
  \<^verbatim>\<open>generateModelFromPhotogrammetry\<close> is returned without \<^verbatim>\<open>await\<close>, so its
  rejection passes the \<^verbatim>\<open>catch\<close> clause unchanged.
\<close>

definition convertPhotogrammetry ::
  "('d, 'm) jsmath_scheme \<Rightarrow> ('t) three_scheme \<Rightarrow> File list \<Rightarrow> string \<Rightarrow> bool
     \<Rightarrow> nat list \<times> (failure + blob)"
where
  "convertPhotogrammetry M T files outputFormat cb =
     (let tr = emit cb 10 [] in
      if length files < 8 then
        (tr, Inl (Error (''Photogrammetry conversion failed: ''
                         @ ''Please provide at least 8 images for photogrammetry'')))
      else if \<not> list_all (\<lambda>f. startsWith (ftype f) ''image/'') files then
        (tr, Inl (Error (''Photogrammetry conversion failed: ''
                         @ ''All files must be valid image files'')))
      else
        let tr = emit cb 20 tr;
            normalizedFormat = toUpperCase outputFormat
        in if normalizedFormat \<notin> set supportedFormats then
             generateModelFromPhotogrammetry M T files ''GLB'' cb tr
           else
             let tr = emit cb 40 tr
             in generateModelFromPhotogrammetry M T files normalizedFormat cb tr)"

section \<open>Auxiliary notions for the proofs\<close>

text \<open>The number of indices one quad of ring \<open>i\<close> contributes in \<open>quad_loop\<close>.\<close>

definition per_quad :: "nat \<Rightarrow> nat \<Rightarrow> nat" where
  "per_quad i rings = (if i \<noteq> 0 then 3 else 0) + (if int i \<noteq> int rings - 1 then 3 else 0)"

text \<open>The tuple that \<open>color_loop\<close> writes for vertex \<open>i\<close>.\<close>

definition rgba :: "('d, 'm) jsmath_scheme \<Rightarrow> 'd color list \<Rightarrow> nat \<Rightarrow> f32 list" where
  "rgba M cs i =
     (case (if cs = [] then (lit M ''0.8'', lit M ''0.8'', lit M ''0.8'')
            else cs ! (i mod length cs)) of
        (r, g, b) \<Rightarrow> [fround M r, fround M g, fround M b, fround M (num M 1)])"

text \<open>
  The number of fill bytes both producers compute for a payload of length \<open>len\<close>:
  \<^verbatim>\<open>(4 - (len % 4)) % 4\<close>.
\<close>

definition padding :: "nat \<Rightarrow> nat" where
  "padding len = (4 - len mod 4) mod 4"

text \<open>
  The bytes \<open>assemble_glb\<close> returns for a JSON chunk \<open>j\<close> and a binary chunk \<open>b\<close>: the
  20 bytes of the header array, and each chunk behind its 8-byte header.
\<close>

definition glb_layout :: "byte list \<Rightarrow> byte list \<Rightarrow> byte list" where
  "glb_layout j b =
     (le32 0x46546c47 @ le32 2 @ le32 (word_of_nat (20 + 8 + length j + 8 + length b))
      @ replicate 8 0)
     @ (le32 (word_of_nat (length j)) @ le32 (word_of_nat 0x4e4f534a)) @ j
     @ (le32 (word_of_nat (length b)) @ le32 (word_of_nat 0x004e4942)) @ b"

text \<open>The four byte ranges of the sphere path, and the three of the cube path.\<close>

definition sphere_bins ::
  "('d, 'm) jsmath_scheme \<Rightarrow> 'd color list \<Rightarrow> nat
     \<Rightarrow> byte list \<times> byte list \<times> byte list \<times> byte list"
where
  "sphere_bins M colors imageCount =
     (let g = generateUVSphere M (subdivisions_of imageCount)
      in (bytes32 (vertices g), bytes32 (indices g), bytes32 (normals g),
          bytes32 (generateVertexColors M (length (vertices g)) colors)))"

definition cube_bins :: "('d, 'm) jsmath_scheme \<Rightarrow> byte list \<times> byte list \<times> byte list" where
  "cube_bins M =
     (bytes32 (Float32Array M (map (num M) cube_vertices)),
      bytes16 (Uint16Array cube_indices),
      bytes32 (Float32Array M (map (num M) cube_normals)))"

text \<open>The scene description of each path, as the producers build it.\<close>

definition sphere_scene :: "('d, 'm) jsmath_scheme \<Rightarrow> 'd color list \<Rightarrow> nat \<Rightarrow> json" where
  "sphere_scene M colors imageCount =
     (let g = generateUVSphere M (subdivisions_of imageCount);
          vertexColors = generateVertexColors M (length (vertices g)) colors
      in case sphere_bins M colors imageCount of
           (vertexBin, indicesBin, normalsBin, colorBin) \<Rightarrow>
             sphere_glTF (sphere_accessors (vertices g) (indices g) (normals g) vertexColors)
               (sphere_bufferViews vertexBin indicesBin normalsBin colorBin)
               (length (vertexBin @ indicesBin @ normalsBin @ colorBin)))"

definition cube_scene :: "('d, 'm) jsmath_scheme \<Rightarrow> json" where
  "cube_scene M =
     (case cube_bins M of
        (vertexBin, indicesBin, normalsBin) \<Rightarrow>
          cube_glTF cube_accessors (cube_bufferViews vertexBin indicesBin normalsBin)
            (length (vertexBin @ indicesBin @ normalsBin)))"

text \<open>
  The byte width of a component type and the arity of an element type, as the container
  format and section 4.4 of the specification give them (5126 is float32, 5125 is uint32,
  5123 is uint16), and the test that the bytes an accessor declares are the bytes of its
  buffer view.
\<close>

definition component_bytes :: "nat \<Rightarrow> nat" where
  "component_bytes ct = (if ct = 5126 then 4 else if ct = 5125 then 4 else if ct = 5123 then 2 else 0)"

definition type_arity :: "string \<Rightarrow> nat" where
  "type_arity t =
     (if t = ''SCALAR'' then 1 else if t = ''VEC3'' then 3 else if t = ''VEC4'' then 4 else 0)"

definition declared_count :: "accessor \<Rightarrow> nat" where
  "declared_count a = count_num a div count_den a"

definition accessor_fits :: "bufferView list \<Rightarrow> accessor \<Rightarrow> bool" where
  "accessor_fits views a =
     (count_den a dvd count_num a \<and> acc_bufferView a < length views \<and>
      declared_count a * component_bytes (componentType a) * type_arity (acc_type a)
        = byteLength (views ! acc_bufferView a))"

text \<open>The bytes a consumer reads through a buffer view.\<close>

definition view_bytes :: "byte list \<Rightarrow> bufferView \<Rightarrow> byte list" where
  "view_bytes binData v = take (byteLength v) (drop (byteOffset v) binData)"

section \<open>Instances for evaluation\<close>

text \<open>
  To evaluate the model at concrete inputs, an instance of the floating-point operations
  that keeps every double as the expression that computes it. Storing into a
  \<^verbatim>\<open>Float32Array\<close> gives the binary32 bits of the constants 0, 1, -1 and 0.8; the bits
  of any other expression are not computed, and the quiet NaN pattern stands for them.
\<close>

datatype dexp =
    DNum int
  | DLit string
  | DPi
  | DSin dexp
  | DCos dexp
  | DMul dexp dexp
  | DQuot dexp dexp

definition term_fround :: "dexp \<Rightarrow> f32" where
  "term_fround d =
     (if d = DNum 0 then 0
      else if d = DNum 1 then 0x3F800000
      else if d = DNum (- 1) then 0xBF800000
      else if d = DLit ''0.8'' then 0x3F4CCCCD
      else 0x7FC00000)"

definition term_math :: "dexp jsmath" where
  "term_math =
     \<lparr> num = DNum, lit = DLit, PI = DPi, msin = DSin, mcos = DCos, mul = DMul, quot = DQuot,
       numtext = (\<lambda>d. ''NaN''), fround = term_fround \<rparr>"

text \<open>Exporters that succeed with a fixed payload, and a request of eight PNG files.\<close>

definition sample_three :: three where
  "sample_three =
     \<lparr> glb_export = Inr (le32 0x46546c47 @ le32 2 @ le32 12),
       gltf_export = Inr ''{}'',
       obj_export = Inr ''o Cube'',
       stl_export = Inr ''solid exported'',
       date_iso = ''2024-01-01T00:00:00.000Z'' \<rparr>"

definition png :: File where
  "png = \<lparr> ftype = ''image/png'', pixel = Sampled 255 0 0 \<rparr>"

definition eight_files :: "File list" where
  "eight_files = replicate 8 png"

section \<open>The sphere generator\<close>

lemma sector_loop_length:
  "length (fst (sector_loop M xy z S j acc)) = length (fst acc) + 3 * (Suc S - j) \<and>
   length (snd (sector_loop M xy z S j acc)) = length (snd acc) + 3 * (Suc S - j)"
proof (induction M xy z S j acc rule: sector_loop.induct)
  case (1 M xy z sectors j vs ns)
  show ?case
  proof (cases "j \<le> sectors")
    case True
    then have "Suc sectors - j = Suc (Suc sectors - (j + 1))" by simp
    with True 1 show ?thesis
      by (subst (1 2) sector_loop.simps) (simp add: Let_def)
  next
    case False
    then show ?thesis by (subst (1 2) sector_loop.simps) simp
  qed
qed

lemma ring_loop_length:
  "length (fst (ring_loop M R S i acc)) = length (fst acc) + 3 * (Suc S) * (Suc R - i) \<and>
   length (snd (ring_loop M R S i acc)) = length (snd acc) + 3 * (Suc S) * (Suc R - i)"
proof (induction M R S i acc rule: ring_loop.induct)
  case (1 M rings sectors i acc)
  show ?case
  proof (cases "i \<le> rings")
    case True
    have "Suc rings - i = Suc (Suc rings - (i + 1))" using True by simp
    with True 1 show ?thesis
      by (subst (1 2) ring_loop.simps) (simp add: Let_def sector_loop_length)
  next
    case False
    then show ?thesis by (subst (1 2) ring_loop.simps) simp
  qed
qed

lemma quad_loop_length:
  "length (quad_loop i R S j k1 k2 idx) = length idx + (S - j) * per_quad i R"
proof (induction i R S j k1 k2 idx rule: quad_loop.induct)
  case (1 i rings sectors j k1 k2 idx)
  show ?case
  proof (cases "j < sectors")
    case True
    then have "sectors - j = Suc (sectors - (j + 1))" by simp
    with True 1 show ?thesis
      by (subst quad_loop.simps) (simp add: Let_def per_quad_def)
  next
    case False
    then show ?thesis by (subst quad_loop.simps) simp
  qed
qed

lemma quad_loop_bound:
  "\<forall>x\<in>set idx. x < B \<Longrightarrow> k1 \<le> k2 \<Longrightarrow> k2 + (S - j) < B \<Longrightarrow>
   \<forall>x\<in>set (quad_loop i R S j k1 k2 idx). x < B"
proof (induction i R S j k1 k2 idx rule: quad_loop.induct)
  case (1 i rings sectors j k1 k2 idx)
  show ?case
  proof (cases "j < sectors")
    case True
    let ?idx1 = "(if i \<noteq> 0 then idx @ [k1, k2, k1 + 1] else idx)"
    let ?idx2 = "(if int i \<noteq> int rings - 1 then ?idx1 @ [k1 + 1, k2, k2 + 1] else ?idx1)"
    have b: "\<forall>x\<in>set ?idx2. x < B"
      using True "1.prems" by auto
    have "\<forall>x\<in>set (quad_loop i rings sectors (j + 1) (k1 + 1) (k2 + 1) ?idx2). x < B"
      using "1.IH"[OF True refl refl b] True "1.prems" by simp
    then show ?thesis using True by (subst quad_loop.simps) (simp add: Let_def)
  next
    case False
    then show ?thesis using "1.prems" by (subst quad_loop.simps) simp
  qed
qed

lemma strip_loop_bound:
  "\<forall>x\<in>set idx. x < Suc R * Suc S \<Longrightarrow>
   \<forall>x\<in>set (strip_loop R S i idx). x < Suc R * Suc S"
proof (induction R S i idx rule: strip_loop.induct)
  case (1 rings sectors i idx)
  show ?case
  proof (cases "i < rings")
    case True
    have "Suc i * Suc sectors \<le> rings * Suc sectors"
      using True by (intro mult_le_mono1) simp
    then have k: "i * (sectors + 1) + sectors + 1 + (sectors - 0) < Suc rings * Suc sectors"
      by simp
    have b: "\<forall>x\<in>set (quad_loop i rings sectors 0 (i * (sectors + 1)) (i * (sectors + 1) + sectors + 1) idx).
               x < Suc rings * Suc sectors"
      by (rule quad_loop_bound[OF "1.prems" _ k]) simp
    show ?thesis
      using "1.IH"[OF True refl refl b] True by (subst strip_loop.simps) (simp add: Let_def)
  next
    case False
    then show ?thesis using "1.prems" by (subst strip_loop.simps) simp
  qed
qed

lemma strip_loop_length:
  "length (strip_loop R S i idx) = length idx + S * (\<Sum>k = i..<R. per_quad k R)"
proof (induction R S i idx rule: strip_loop.induct)
  case (1 rings sectors i idx)
  show ?case
  proof (cases "i < rings")
    case True
    with 1 show ?thesis
      by (subst strip_loop.simps)
         (simp add: Let_def quad_loop_length sum.atLeast_Suc_lessThan algebra_simps)
  next
    case False
    then show ?thesis by (subst strip_loop.simps) simp
  qed
qed

lemma per_quad_sum_from:
  "2 \<le> R \<Longrightarrow> i < R \<Longrightarrow>
   (\<Sum>k = i..<R. per_quad k R) = (if i = 0 then 6 * (R - 1) else 6 * (R - i) - 3)"
proof (induction "R - i" arbitrary: i)
  case 0
  then show ?case by simp
next
  case (Suc n)
  show ?case
  proof (cases "Suc i < R")
    case True
    have "(\<Sum>k = i..<R. per_quad k R) = per_quad i R + (\<Sum>k = Suc i..<R. per_quad k R)"
      using Suc.prems by (simp add: sum.atLeast_Suc_lessThan)
    also have "(\<Sum>k = Suc i..<R. per_quad k R) = 6 * (R - Suc i) - 3"
      using Suc.hyps(1)[of "Suc i"] Suc.hyps(2) True Suc.prems by simp
    finally show ?thesis using True Suc.prems
      by (auto simp: per_quad_def)
  next
    case False
    then have "i = R - 1" using Suc.prems by simp
    then have "{i..<R} = {i}" using Suc.prems by auto
    then show ?thesis using \<open>i = R - 1\<close> Suc.prems by (auto simp: per_quad_def)
  qed
qed

lemma generateUVSphere_vertices_length:
  "length (vertices (generateUVSphere M s)) = 3 * ((s + 1) * (s * 2 + 1))"
proof -
  obtain vs ns where r: "ring_loop M s (s * 2) 0 ([], []) = (vs, ns)"
    by (cases "ring_loop M s (s * 2) 0 ([], [])")
  have "length vs = 3 * Suc (s * 2) * Suc s"
    using ring_loop_length[of M s "s * 2" 0 "([], [])"] r by simp
  then show ?thesis
    by (simp add: generateUVSphere_def Let_def r Float32Array_def algebra_simps)
qed

lemma generateUVSphere_normals_length:
  "length (normals (generateUVSphere M s)) = 3 * ((s + 1) * (s * 2 + 1))"
proof -
  obtain vs ns where r: "ring_loop M s (s * 2) 0 ([], []) = (vs, ns)"
    by (cases "ring_loop M s (s * 2) 0 ([], [])")
  have "length ns = 3 * Suc (s * 2) * Suc s"
    using ring_loop_length[of M s "s * 2" 0 "([], [])"] r by simp
  then show ?thesis
    by (simp add: generateUVSphere_def Let_def r Float32Array_def algebra_simps)
qed

lemma generateUVSphere_indices:
  "indices (generateUVSphere M s) = Uint32Array (strip_loop s (s * 2) 0 [])"
  by (simp add: generateUVSphere_def Let_def split: prod.splits)

lemma generateUVSphere_indices_length:
  "2 \<le> s \<Longrightarrow> length (indices (generateUVSphere M s)) = 12 * s * (s - 1)"
  by (simp add: generateUVSphere_indices Uint32Array_def strip_loop_length per_quad_sum_from)

lemma generateUVSphere_indices_bound:
  "k \<in> set (indices (generateUVSphere M s)) \<Longrightarrow> unat k < (s + 1) * (s * 2 + 1)"
proof -
  assume "k \<in> set (indices (generateUVSphere M s))"
  then obtain x where x: "x \<in> set (strip_loop s (s * 2) 0 [])" and k: "k = word_of_nat x"
    by (auto simp: generateUVSphere_indices Uint32Array_def)
  have "x < Suc s * Suc (s * 2)"
    using strip_loop_bound[of "[]" s "s * 2" 0] x by simp
  moreover have "unat (word_of_nat x :: 32 word) \<le> x"
    by (simp add: unat_of_nat)
  ultimately show ?thesis using k by simp
qed

text \<open>
  Claim C7. For a tessellation parameter \<open>subdivisions\<close> between 2 and 8, with
  \<open>rings = subdivisions\<close> and \<open>sectors = 2 * subdivisions\<close>, the sphere generator
  produces \<open>(rings + 1) * (sectors + 1)\<close> vertices (three coordinates each) and a
  strictly positive, even number of triangle indices, each of them less than the vertex
  count; an input count of 25 gives \<open>subdivisions = 7\<close> and 120 vertices.
\<close>

theorem sphere_counts:
  assumes "2 \<le> subdivisions" and "subdivisions \<le> 8"
  shows "let g = generateUVSphere M subdivisions;
             rings = subdivisions;
             sectors = 2 * subdivisions
         in length (vertices g) = 3 * ((rings + 1) * (sectors + 1))
          \<and> 0 < length (indices g)
          \<and> even (length (indices g))
          \<and> (\<forall>k\<in>set (indices g). unat k < (rings + 1) * (sectors + 1))
          \<and> subdivisions_of 25 = 7
          \<and> length (vertices (generateUVSphere M (subdivisions_of 25))) = 3 * 120"
proof -
  let ?g = "generateUVSphere M subdivisions"
  have len: "length (indices ?g) = 12 * subdivisions * (subdivisions - 1)"
    using assms(1) by (rule generateUVSphere_indices_length)
  have v: "length (vertices ?g) = 3 * ((subdivisions + 1) * (2 * subdivisions + 1))"
    by (simp add: generateUVSphere_vertices_length mult.commute)
  have pos: "0 < length (indices ?g)"
    using assms(1) by (simp add: len)
  have ev: "even (length (indices ?g))"
    by (simp add: len)
  have bound: "\<forall>k\<in>set (indices ?g). unat k < (subdivisions + 1) * (2 * subdivisions + 1)"
    using generateUVSphere_indices_bound[of _ M subdivisions] by (simp add: mult.commute)
  have s25: "subdivisions_of 25 = 7"
    by (simp add: subdivisions_of_def)
  have v25: "length (vertices (generateUVSphere M (subdivisions_of 25))) = 3 * 120"
    by (simp add: s25 generateUVSphere_vertices_length)
  show ?thesis
    unfolding Let_def using v pos ev bound s25 v25 by blast
qed

theorem sphere_counts_witness:
  "(2::nat) \<le> 7 \<and> (7::nat) \<le> 8 \<and>
     (let g = generateUVSphere term_math 7;
             rings = 7;
             sectors = 2 * 7
         in length (vertices g) = 3 * ((rings + 1) * (sectors + 1))
          \<and> 0 < length (indices g)
          \<and> even (length (indices g))
          \<and> (\<forall>k\<in>set (indices g). unat k < (rings + 1) * (sectors + 1))
          \<and> subdivisions_of 25 = 7
          \<and> length (vertices (generateUVSphere term_math (subdivisions_of 25))) = 3 * 120)"
  using sphere_counts[of 7 term_math] by simp

section \<open>The colorizer\<close>

lemma length_rgba: "length (rgba M cs i) = 4"
  by (simp add: rgba_def split: prod.splits)

lemma color_loop_length:
  "length (color_loop M n cs i colors) = length colors"
proof (induction M n cs i colors rule: color_loop.induct)
  case (1 M vertexCount imageColors i colors)
  show ?case
  proof (cases "i < vertexCount")
    case True
    obtain r g b where c: "(if imageColors = [] then (lit M ''0.8'', lit M ''0.8'', lit M ''0.8'')
               else imageColors ! (i mod length imageColors)) = (r, g, b)"
      by (metis prod_cases3)
    let ?c4 = "colors[i * 4 := fround M r, i * 4 + 1 := fround M g,
                 i * 4 + 2 := fround M b, i * 4 + 3 := fround M (num M 1)]"
    have step: "color_loop M vertexCount imageColors i colors =
                color_loop M vertexCount imageColors (i + 1) ?c4"
      using True c by (subst color_loop.simps) (simp add: Let_def)
    have "length (color_loop M vertexCount imageColors (i + 1) ?c4) = length ?c4"
      using "1.IH"[OF True refl c[symmetric] refl refl refl refl refl] by simp
    then show ?thesis using step by simp
  next
    case False
    then show ?thesis by (subst color_loop.simps) simp
  qed
qed

lemma four_cases:
  "i * 4 \<le> (k::nat) \<Longrightarrow> k < (i + 1) * 4 \<Longrightarrow>
   k = i * 4 \<or> k = i * 4 + 1 \<or> k = i * 4 + 2 \<or> k = i * 4 + 3"
  by arith

lemma quad_index [simp]:
  "Suc (i * 4) div 4 = i" "Suc (i * 4) mod 4 = 1"
  "Suc (Suc (i * 4)) div 4 = i" "Suc (Suc (i * 4)) mod 4 = 2"
  "(i * 4 + 3) div 4 = i" "(i * 4 + 3) mod 4 = 3"
  by arith+

lemma color_loop_nth:
  "length colors = n * 4 \<Longrightarrow> k < n * 4 \<Longrightarrow>
   color_loop M n cs i colors ! k =
     (if i * 4 \<le> k then rgba M cs (k div 4) ! (k mod 4) else colors ! k)"
proof (induction M n cs i colors rule: color_loop.induct)
  case (1 M vertexCount imageColors i colors)
  show ?case
  proof (cases "i < vertexCount")
    case True
    obtain r g b where c: "(if imageColors = [] then (lit M ''0.8'', lit M ''0.8'', lit M ''0.8'')
               else imageColors ! (i mod length imageColors)) = (r, g, b)"
      by (metis prod_cases3)
    let ?c4 = "colors[i * 4 := fround M r, i * 4 + 1 := fround M g,
                 i * 4 + 2 := fround M b, i * 4 + 3 := fround M (num M 1)]"
    have step: "color_loop M vertexCount imageColors i colors =
                color_loop M vertexCount imageColors (i + 1) ?c4"
      using True c by (subst color_loop.simps) (simp add: Let_def)
    have len: "length ?c4 = vertexCount * 4"
      using "1.prems" by simp
    have ih: "color_loop M vertexCount imageColors (i + 1) ?c4 ! k =
          (if (i + 1) * 4 \<le> k then rgba M imageColors (k div 4) ! (k mod 4) else ?c4 ! k)"
      using "1.IH"[OF True refl c[symmetric] refl refl refl refl refl len "1.prems"(2)] by simp
    have r: "rgba M imageColors i = [fround M r, fround M g, fround M b, fround M (num M 1)]"
      using c by (simp add: rgba_def)
    have inr: "i * 4 + 3 < length colors" using True "1.prems" by simp
    show ?thesis
    proof (cases "(i + 1) * 4 \<le> k")
      case True
      then show ?thesis using step ih by simp
    next
      case hi: False
      show ?thesis
      proof (cases "i * 4 \<le> k")
        case True
        then have "k = i * 4 \<or> k = i * 4 + 1 \<or> k = i * 4 + 2 \<or> k = i * 4 + 3"
          using hi four_cases by simp
        then show ?thesis
          using step ih hi inr r by (elim disjE) (simp_all add: nth_list_update)
      next
        case False
        then show ?thesis using step ih hi by (simp add: nth_list_update)
      qed
    qed
  next
    case False
    then have "\<not> i * 4 \<le> k" using "1.prems" by simp
    then show ?thesis using False by (subst color_loop.simps) simp
  qed
qed

lemma take4_drop:
  "i * 4 + 3 < length xs \<Longrightarrow>
   take 4 (drop (i * 4) xs) = [xs ! (i * 4), xs ! (i * 4 + 1), xs ! (i * 4 + 2), xs ! (i * 4 + 3)]"
  by (rule nth_equalityI) (auto simp: nth_Cons' less_Suc_eq numeral_eq_Suc)

lemma generateVertexColors_length:
  "length (generateVertexColors M n cs) = n * 4"
  by (simp add: generateVertexColors_def color_loop_length)

lemma generateVertexColors_tuple:
  assumes "i < n"
  shows "take 4 (drop (i * 4) (generateVertexColors M n cs)) = rgba M cs i"
proof -
  let ?xs = "generateVertexColors M n cs"
  have nth: "?xs ! k = rgba M cs (k div 4) ! (k mod 4)" if "k < n * 4" for k
    using color_loop_nth[of "replicate (n * 4) 0" n k M cs 0] that
    by (simp add: generateVertexColors_def)
  have "i * 4 + 3 < length ?xs"
    using assms by (simp add: generateVertexColors_length)
  then have "take 4 (drop (i * 4) ?xs) =
     [?xs ! (i * 4), ?xs ! (i * 4 + 1), ?xs ! (i * 4 + 2), ?xs ! (i * 4 + 3)]"
    by (rule take4_drop)
  also have "\<dots> = [rgba M cs i ! 0, rgba M cs i ! 1, rgba M cs i ! 2, rgba M cs i ! 3]"
    using assms by (simp add: nth)
  also have "\<dots> = rgba M cs i"
    by (simp add: rgba_def split: prod.splits)
  finally show ?thesis .
qed

text \<open>
  Claim C8. For every vertex count \<open>n\<close> the colorizer returns a buffer of \<open>n\<close> RGBA
  tuples. For a non-empty color list, tuple \<open>i\<close> holds the color at index
  \<open>i mod colorCount\<close> and the alpha component 1.0, each as the binary32 value the
  \<^verbatim>\<open>Float32Array\<close> stores; for the empty list every tuple is (0.8, 0.8, 0.8, 1.0).
\<close>

theorem vertex_colors:
  "length (generateVertexColors M n cs) = n * 4 \<and>
   (\<forall>i<n. take 4 (drop (i * 4) (generateVertexColors M n cs)) =
      (if cs = []
       then [fround M (lit M ''0.8''), fround M (lit M ''0.8''), fround M (lit M ''0.8''),
             fround M (num M 1)]
       else case cs ! (i mod length cs) of
              (r, g, b) \<Rightarrow> [fround M r, fround M g, fround M b, fround M (num M 1)]))"
  by (simp add: generateVertexColors_length generateVertexColors_tuple rgba_def)

theorem vertex_colors_witness:
  "(1::nat) < 3 \<and>
   take 4 (drop (1 * 4)
     (generateVertexColors term_math 3 [(DNum 1, DNum 0, DNum 0), (DNum 0, DNum 1, DNum 0)])) =
   [0, 0x3F800000, 0, 0x3F800000] \<and>
   take 4 (drop (1 * 4) (generateVertexColors term_math 3 [])) =
   [0x3F4CCCCD, 0x3F4CCCCD, 0x3F4CCCCD, 0x3F800000]"
  using vertex_colors[of term_math 3 "[(DNum 1, DNum 0, DNum 0), (DNum 0, DNum 1, DNum 0)]",
          THEN conjunct2, rule_format, of 1]
        vertex_colors[of term_math 3 "[]", THEN conjunct2, rule_format, of 1]
  by (simp add: term_math_def term_fround_def)

section \<open>Byte arrays and the container\<close>

lemma length_le32 [simp]: "length (le32 w) = 4"
  by (simp add: le32_def)

lemma length_le16 [simp]: "length (le16 w) = 2"
  by (simp add: le16_def)

lemma length_bytes32 [simp]: "length (bytes32 ws) = 4 * length ws"
  by (induction ws) (simp_all add: bytes32_def)

lemma length_bytes16 [simp]: "length (bytes16 ws) = 2 * length ws"
  by (induction ws) (simp_all add: bytes16_def)

lemma sphere_binData_eq:
  "sphere_binData v i n c = Some (v @ i @ n @ c)"
  by (simp add: sphere_binData_def u8_set_def Let_def)

lemma cube_binData_eq:
  "cube_binData v i n = Some (v @ i @ n)"
  by (simp add: cube_binData_def u8_set_def Let_def)

lemma fill_loop_eq:
  "base + needed \<le> length chunk \<Longrightarrow> i \<le> needed \<Longrightarrow>
   fill_loop v base needed i chunk =
     take (base + i) chunk @ replicate (needed - i) v @ drop (base + needed) chunk"
proof (induction v base needed i chunk rule: fill_loop.induct)
  case (1 v base needed i chunk)
  show ?case
  proof (cases "i < needed")
    case True
    let ?c = "chunk[base + i := v]"
    have len: "base + needed \<le> length ?c"
      using "1.prems" by simp
    have n: "replicate (needed - i) v = v # replicate (needed - (i + 1)) v"
      using True by (simp add: Suc_diff_Suc flip: replicate_Suc)
    have step: "fill_loop v base needed i chunk = fill_loop v base needed (i + 1) ?c"
      using True by (subst fill_loop.simps) simp
    have ih: "fill_loop v base needed (i + 1) ?c =
                take (base + (i + 1)) ?c @ replicate (needed - (i + 1)) v @ drop (base + needed) ?c"
      using "1.IH"[OF True len] True by simp
    have t: "take (base + (i + 1)) ?c = take (base + i) chunk @ [v]"
      using True "1.prems" by (simp add: take_Suc_conv_app_nth)
    have d: "drop (base + needed) ?c = drop (base + needed) chunk"
      using True by simp
    show ?thesis
      by (simp only: step ih t d n append_assoc append_Cons append_Nil)
  next
    case False
    then have "i = needed" using "1.prems" by simp
    then show ?thesis using False by (subst fill_loop.simps) simp
  qed
qed

lemma padding_less: "padding len < 4"
  by (simp add: padding_def)

lemma padding_dvd: "4 dvd (len + padding len)"
proof -
  have "len mod 4 = 0 \<or> len mod 4 = 1 \<or> len mod 4 = 2 \<or> len mod 4 = 3"
    by arith
  moreover have "(len + padding len) mod 4 = (len mod 4 + padding len) mod 4"
    by (simp add: mod_add_left_eq)
  ultimately have "(len + padding len) mod 4 = 0"
    unfolding padding_def by (elim disjE) simp_all
  then show ?thesis by (simp add: dvd_eq_mod_eq_0)
qed

lemma padding_0: "4 dvd len \<Longrightarrow> padding len = 0"
  by (simp add: padding_def mod_eq_0_iff_dvd)

lemma pad_chunk_eq:
  "pad_chunk v buf = Some (buf @ replicate (padding (length buf)) v)"
proof -
  let ?p = "padding (length buf)"
  have s: "u8_set (replicate (length buf + ?p) 0) buf 0 = Some (buf @ replicate ?p 0)"
    by (simp add: u8_set_def)
  have f: "fill_loop v (length buf) ?p 0 (buf @ replicate ?p 0) = buf @ replicate ?p v"
    by (subst fill_loop_eq) simp_all
  show ?thesis
    unfolding pad_chunk_def Let_def padding_def[symmetric]
    by (simp only: s f bind.bind_lunit)
qed

lemma setUint32_append:
  "length pre = off \<Longrightarrow> 4 \<le> length rest \<Longrightarrow>
   setUint32 (pre @ rest) off v = Some (pre @ le32 (word_of_nat v) @ drop 4 rest)"
  by (simp add: setUint32_def)

lemma u8_set_append:
  "length pre = off \<Longrightarrow> length src \<le> length rest \<Longrightarrow>
   u8_set (pre @ rest) src off = Some (pre @ src @ drop (length src) rest)"
  by (simp add: u8_set_def)

lemma glb_header_eq:
  "glb_header j b =
     Some (le32 0x46546c47 @ le32 2 @ le32 (word_of_nat (20 + 8 + length j + 8 + length b))
           @ replicate 8 0)"
proof -
  have h1: "setUint32 (replicate 20 0) 0 0x46546c47 = Some (le32 0x46546c47 @ replicate 16 0)"
    using setUint32_append[of "[]" 0 "replicate 20 0" "0x46546c47"] by simp
  have h2: "setUint32 (le32 0x46546c47 @ replicate 16 0) 4 2 =
            Some (le32 0x46546c47 @ le32 2 @ replicate 12 0)"
    using setUint32_append[of "le32 0x46546c47" 4 "replicate 16 0" 2] by simp
  have h3: "setUint32 (le32 0x46546c47 @ le32 2 @ replicate 12 0) 8 n =
            Some (le32 0x46546c47 @ le32 2 @ le32 (word_of_nat n) @ replicate 8 0)" for n
    using setUint32_append[of "le32 0x46546c47 @ le32 2" 8 "replicate 12 0" n] by simp
  show ?thesis
    unfolding glb_header_def Let_def by (simp only: h1 h2 h3 bind.bind_lunit)
qed

lemma chunk_header_eq:
  "chunk_header c tag = Some (le32 (word_of_nat (length c)) @ le32 (word_of_nat tag))"
proof -
  have h1: "setUint32 (replicate 8 0) 0 n = Some (le32 (word_of_nat n) @ replicate 4 0)" for n
    using setUint32_append[of "[]" 0 "replicate 8 0" n] by simp
  have h2: "setUint32 (le32 w @ replicate 4 0) 4 n = Some (le32 w @ le32 (word_of_nat n))" for w n
    using setUint32_append[of "le32 w" 4 "replicate 4 0" n] by simp
  show ?thesis
    unfolding chunk_header_def by (simp only: h1 h2 bind.bind_lunit)
qed

lemma u8_set_zeros:
  "length pre = off \<Longrightarrow> length src \<le> n \<Longrightarrow>
   u8_set (pre @ replicate n 0) src off = Some ((pre @ src) @ replicate (n - length src) 0)"
  using u8_set_append[of pre off src "replicate n 0"] by simp

lemma assemble_glb_eq:
  "assemble_glb j b =
     Some ((le32 0x46546c47 @ le32 2 @ le32 (word_of_nat (20 + 8 + length j + 8 + length b))
            @ replicate 8 0)
           @ (le32 (word_of_nat (length j)) @ le32 (word_of_nat 0x4e4f534a)) @ j
           @ (le32 (word_of_nat (length b)) @ le32 (word_of_nat 0x004e4942)) @ b)"
proof -
  let ?h = "le32 0x46546c47 @ le32 2 @ le32 (word_of_nat (20 + 8 + length j + 8 + length b))
            @ replicate 8 0"
  let ?jh = "le32 (word_of_nat (length j)) @ le32 (word_of_nat 0x4e4f534a)"
  let ?bh = "le32 (word_of_nat (length b)) @ le32 (word_of_nat 0x004e4942)"
  let ?n = "length ?h + length ?jh + length j + length ?bh + length b"
  have s1: "u8_set (replicate ?n 0) ?h 0 = Some (?h @ replicate (?n - length ?h) 0)"
    using u8_set_zeros[of "[]" 0 ?h ?n] by simp
  have s2: "u8_set (?h @ replicate (?n - length ?h) 0) ?jh (0 + length ?h) =
            Some ((?h @ ?jh) @ replicate (?n - length ?h - length ?jh) 0)"
    by (rule u8_set_zeros) simp_all
  have s3: "u8_set ((?h @ ?jh) @ replicate (?n - length ?h - length ?jh) 0) j
              (0 + length ?h + length ?jh) =
            Some (((?h @ ?jh) @ j) @ replicate (?n - length ?h - length ?jh - length j) 0)"
    by (rule u8_set_zeros) simp_all
  have s4: "u8_set (((?h @ ?jh) @ j) @ replicate (?n - length ?h - length ?jh - length j) 0) ?bh
              (0 + length ?h + length ?jh + length j) =
            Some ((((?h @ ?jh) @ j) @ ?bh)
                  @ replicate (?n - length ?h - length ?jh - length j - length ?bh) 0)"
    by (rule u8_set_zeros) simp_all
  have s5: "u8_set ((((?h @ ?jh) @ j) @ ?bh)
                  @ replicate (?n - length ?h - length ?jh - length j - length ?bh) 0) b
              (0 + length ?h + length ?jh + length j + length ?bh) =
            Some (((((?h @ ?jh) @ j) @ ?bh) @ b)
                  @ replicate (?n - length ?h - length ?jh - length j - length ?bh - length b) 0)"
    by (rule u8_set_zeros) simp_all
  have z: "?n - length ?h - length ?jh - length j - length ?bh - length b = 0"
    by simp
  have "assemble_glb j b = Some (((((?h @ ?jh) @ j) @ ?bh) @ b) @ [])"
    unfolding assemble_glb_def Let_def glb_header_eq chunk_header_eq
    by (simp only: bind.bind_lunit s1 s2 s3 s4 s5 z replicate_0)
  then show ?thesis
    by (simp only: append_assoc append_Nil2)
qed

section \<open>Closed forms of the two producers\<close>

lemma jsonChunk_of_eq:
  "jsonChunk_of buf = Some (buf @ replicate (padding (length buf)) 0x20)"
  by (simp add: jsonChunk_of_def pad_chunk_eq)

lemma binChunk_of_eq:
  "binChunk_of buf = Some (buf @ replicate (padding (length buf)) 0)"
  by (simp add: binChunk_of_def pad_chunk_eq)

lemma assemble_glb_layout: "assemble_glb j b = Some (glb_layout j b)"
  by (simp only: assemble_glb_eq glb_layout_def)

lemma createPhotogrammetryModel_eq:
  "createPhotogrammetryModel M colors imageCount =
     (case sphere_bins M colors imageCount of
        (vertexBin, indicesBin, normalsBin, colorBin) \<Rightarrow>
          let binData = vertexBin @ indicesBin @ normalsBin @ colorBin;
              jsonBuf = encode (stringify M (sphere_scene M colors imageCount))
          in Some (glb_layout (jsonBuf @ replicate (padding (length jsonBuf)) 0x20)
                              (binData @ replicate (padding (length binData)) 0)))"
  unfolding createPhotogrammetryModel_def sphere_bins_def sphere_scene_def Let_def
    sphere_binData_eq jsonChunk_of_eq binChunk_of_eq assemble_glb_layout
  by (simp only: bind.bind_lunit prod.case)

lemma createCubeGLB_eq:
  "createCubeGLB M =
     (case cube_bins M of
        (vertexBin, indicesBin, normalsBin) \<Rightarrow>
          let binData = vertexBin @ indicesBin @ normalsBin;
              jsonBuf = encode (stringify M (cube_scene M))
          in Some (glb_layout (jsonBuf @ replicate (padding (length jsonBuf)) 0x20)
                              (binData @ replicate (padding (length binData)) 0)))"
  unfolding createCubeGLB_def cube_bins_def cube_scene_def Let_def
    cube_binData_eq jsonChunk_of_eq binChunk_of_eq assemble_glb_layout
  by (simp only: bind.bind_lunit prod.case)

section \<open>The conversion entry points\<close>

lemma createPhotogrammetryModel_returns:
  "\<exists>glb. createPhotogrammetryModel M colors imageCount = Some glb"
  by (simp add: createPhotogrammetryModel_eq Let_def split: prod.splits)

lemma generateModelFromPhotogrammetry_eq:
  "generateModelFromPhotogrammetry M T files format cb tr =
     (case exportSceneToFormat T format cb (emit cb 85 (emit cb 70 (emit cb 50 tr))) of
        (tr', Inl e) \<Rightarrow> (tr', Inl e)
      | (tr', Inr b) \<Rightarrow> (emit cb 100 tr', Inr b))"
proof -
  obtain glb where "createPhotogrammetryModel M (extractImageColors M files) (length files) = Some glb"
    using createPhotogrammetryModel_returns by blast
  then show ?thesis
    by (simp add: generateModelFromPhotogrammetry_def Let_def)
qed

lemma exportSceneToFormat_GLB:
  "exportSceneToFormat T ''GLB'' cb tr =
     (emit cb 50 tr,
      case glb_export T of
        Inr data \<Rightarrow> Inr \<lparr> blob_bytes = data, blob_type = ''model/gltf-binary'' \<rparr>
      | Inl e \<Rightarrow> Inl (Error (''Export to GLB failed: GLB export failed: '' @ e)))"
  by (simp add: exportSceneToFormat_def exportScene_def exportAsGLB_def Let_def split: sum.splits)

lemma eight_files_valid:
  "\<not> length eight_files < 8"
  "list_all (\<lambda>f. startsWith (ftype f) ''image/'') eight_files"
  by (simp_all add: eight_files_def png_def startsWith_def list_all_iff)

lemma toUpperCase_GLB: "toUpperCase ''GLB'' = ''GLB''"
  by (simp add: toUpperCase_def upper_char_def)

lemma convert_eight_files:
  "convertPhotogrammetry M T eight_files ''GLB'' cb =
     (case glb_export T of
        Inr data \<Rightarrow>
          (emit cb 100 (emit cb 50 (emit cb 85 (emit cb 70 (emit cb 50 (emit cb 40 (emit cb 20
             (emit cb 10 []))))))),
           Inr \<lparr> blob_bytes = data, blob_type = ''model/gltf-binary'' \<rparr>)
      | Inl e \<Rightarrow>
          (emit cb 50 (emit cb 85 (emit cb 70 (emit cb 50 (emit cb 40 (emit cb 20
             (emit cb 10 [])))))),
           Inl (Error (''Export to GLB failed: GLB export failed: '' @ e))))"
  by (simp add: convertPhotogrammetry_def eight_files_valid toUpperCase_GLB supportedFormats_def
        generateModelFromPhotogrammetry_eq exportSceneToFormat_GLB Let_def split: sum.splits)

text \<open>
  Claim C6, at the request of eight PNG files for GLB with a progress callback: the
  percentages delivered are 10, 20, 40, 50, 70, 85, then the 50 of
  \<^verbatim>\<open>exportSceneToFormat\<close>, which receives the same options, then 100 when the export
  succeeds. The sequence is not monotone.
\<close>

theorem progress_regresses:
  "fst (convertPhotogrammetry M T eight_files ''GLB'' True) =
     [10, 20, 40, 50, 70, 85, 50] @ (case glb_export T of Inr data \<Rightarrow> [100] | Inl e \<Rightarrow> [])
   \<and> \<not> sorted (fst (convertPhotogrammetry M T eight_files ''GLB'' True))
   \<and> list_all (\<lambda>p. p \<le> 100) (fst (convertPhotogrammetry M T eight_files ''GLB'' True))"
  by (simp add: convert_eight_files emit_def split: sum.splits)

lemma length_glb_layout: "length (glb_layout j b) = 36 + length j + length b"
  by (simp add: glb_layout_def)

lemma createPhotogrammetryModel_length:
  "\<exists>glb. createPhotogrammetryModel M colors imageCount = Some glb \<and> 36 \<le> length glb"
  by (simp add: createPhotogrammetryModel_eq Let_def length_glb_layout split: prod.splits)

text \<open>
  Claim C1, at the same request: whatever the images are, the blob returned is the one
  the exporter makes from the fixed cube scene; the container that
  \<^verbatim>\<open>createPhotogrammetryModel\<close> assembled is computed and dropped. With an exporter
  that yields 12 bytes, the returned bytes are those 12 and not the assembled container.
\<close>

theorem photogrammetry_returns_cube_export:
  "snd (convertPhotogrammetry M T eight_files ''GLB'' cb) =
       (case glb_export T of
          Inr data \<Rightarrow> Inr \<lparr> blob_bytes = data, blob_type = ''model/gltf-binary'' \<rparr>
        | Inl e \<Rightarrow> Inl (Error (''Export to GLB failed: GLB export failed: '' @ e)))
   \<and> (\<exists>glb returned.
         createPhotogrammetryModel M (extractImageColors M eight_files) (length eight_files)
           = Some glb
       \<and> snd (convertPhotogrammetry M sample_three eight_files ''GLB'' cb)
           = Inr \<lparr> blob_bytes = returned, blob_type = ''model/gltf-binary'' \<rparr>
       \<and> length returned = 12 \<and> 36 \<le> length glb \<and> returned \<noteq> glb)"
proof -
  obtain glb where g: "createPhotogrammetryModel M (extractImageColors M eight_files)
                          (length eight_files) = Some glb" and l: "36 \<le> length glb"
    using createPhotogrammetryModel_length by blast
  let ?r = "le32 0x46546c47 @ le32 2 @ le32 12"
  have r: "snd (convertPhotogrammetry M sample_three eight_files ''GLB'' cb)
           = Inr \<lparr> blob_bytes = ?r, blob_type = ''model/gltf-binary'' \<rparr>"
    by (simp add: convert_eight_files sample_three_def)
  have lr: "length ?r = 12" by simp
  have ne: "?r \<noteq> glb" using l lr by auto
  have gen: "snd (convertPhotogrammetry M T eight_files ''GLB'' cb) =
       (case glb_export T of
          Inr data \<Rightarrow> Inr \<lparr> blob_bytes = data, blob_type = ''model/gltf-binary'' \<rparr>
        | Inl e \<Rightarrow> Inl (Error (''Export to GLB failed: GLB export failed: '' @ e)))"
    by (simp add: convert_eight_files split: sum.splits)
  show ?thesis
    using gen g r lr l ne by blast
qed

text \<open>
  Claim C10. A request with fewer than 8 files, or with a file whose type does not start
  with \<^verbatim>\<open>image/\<close>, is rejected with an error whose message starts with
  \<^verbatim>\<open>Photogrammetry conversion failed: \<close>. Only the first progress value is delivered:
  the generator, the exporter and the colorizer are not reached.
\<close>

theorem validation_rejects:
  assumes "length files < 8 \<or> (\<exists>f\<in>set files. \<not> startsWith (ftype f) ''image/'')"
  shows "\<exists>msg. convertPhotogrammetry M T files outputFormat cb =
           (emit cb 10 [], Inl (Error (''Photogrammetry conversion failed: '' @ msg)))"
proof (cases "length files < 8")
  case True
  then show ?thesis
    by (simp add: convertPhotogrammetry_def Let_def)
next
  case False
  then have "\<not> list_all (\<lambda>f. startsWith (ftype f) ''image/'') files"
    using assms by (auto simp: list_all_iff)
  then show ?thesis
    using False by (simp add: convertPhotogrammetry_def Let_def)
qed

theorem validation_rejects_witness:
  "length (replicate 7 png) < 8 \<and>
   (\<exists>msg. convertPhotogrammetry term_math sample_three (replicate 7 png) ''GLB'' True =
           ([10], Inl (Error (''Photogrammetry conversion failed: '' @ msg)))) \<and>
   (\<exists>f\<in>set (replicate 8 (png\<lparr>ftype := ''text/plain''\<rparr>)). \<not> startsWith (ftype f) ''image/'') \<and>
   (\<exists>msg. convertPhotogrammetry term_math sample_three
             (replicate 8 (png\<lparr>ftype := ''text/plain''\<rparr>)) ''GLB'' True =
           ([10], Inl (Error (''Photogrammetry conversion failed: '' @ msg))))"
proof -
  have a: "length (replicate 7 png) < 8" by simp
  have b: "\<exists>f\<in>set (replicate 8 (png\<lparr>ftype := ''text/plain''\<rparr>)). \<not> startsWith (ftype f) ''image/''"
    by (simp add: startsWith_def)
  show ?thesis
    using a b
      validation_rejects[of "replicate 7 png" term_math sample_three "''GLB''" True, OF disjI1, OF a]
      validation_rejects[of "replicate 8 (png\<lparr>ftype := ''text/plain''\<rparr>)" term_math sample_three
        "''GLB''" True, OF disjI2, OF b]
    by (simp add: emit_def)
qed

section \<open>Accessors and buffer views\<close>

lemma sphere_bins_lengths:
  "sphere_bins M colors imageCount = (v, i, n, c) \<Longrightarrow>
     length v = 12 * ((subdivisions_of imageCount + 1) * (subdivisions_of imageCount * 2 + 1)) \<and>
     length n = 12 * ((subdivisions_of imageCount + 1) * (subdivisions_of imageCount * 2 + 1)) \<and>
     length c = 48 * ((subdivisions_of imageCount + 1) * (subdivisions_of imageCount * 2 + 1)) \<and>
     length i = 4 * length (indices (generateUVSphere M (subdivisions_of imageCount)))"
  by (auto simp: sphere_bins_def Let_def generateUVSphere_vertices_length
        generateUVSphere_normals_length generateVertexColors_length)

lemma subdivisions_of_ge: "2 \<le> subdivisions_of n"
  by (simp add: subdivisions_of_def)

lemma cube_lengths:
  "length cube_vertices = 24" "length cube_indices = 36" "length cube_normals = 71"
  by (simp_all add: cube_vertices_def cube_indices_def cube_normals_def)

lemma cube_bins_lengths:
  "cube_bins M = (v, i, n) \<Longrightarrow> length v = 96 \<and> length i = 72 \<and> length n = 284"
  by (auto simp: cube_bins_def Float32Array_def Uint16Array_def cube_lengths)

text \<open>
  Claim C3. In the sphere path every accessor declares exactly the bytes of its buffer
  view. In the cube path only the position accessor does: the index accessor declares
  component type 5125 (4 bytes) for 36 indices that are packed as 16-bit values (72
  bytes), and the normal accessor declares 24 vectors for a table of 71 numbers (284
  bytes).
\<close>

theorem accessor_byte_lengths:
  "(case sphere_bins M colors imageCount of
      (vertexBin, indicesBin, normalsBin, colorBin) \<Rightarrow>
        let g = generateUVSphere M (subdivisions_of imageCount);
            vertexColors = generateVertexColors M (length (vertices g)) colors
        in map (accessor_fits (sphere_bufferViews vertexBin indicesBin normalsBin colorBin))
             (sphere_accessors (vertices g) (indices g) (normals g) vertexColors))
     = [True, True, True, True]
   \<and> (case cube_bins M of
        (vertexBin, indicesBin, normalsBin) \<Rightarrow>
          map (accessor_fits (cube_bufferViews vertexBin indicesBin normalsBin)) cube_accessors)
     = [True, False, False]
   \<and> (case cube_bins M of
        (vertexBin, indicesBin, normalsBin) \<Rightarrow>
          (componentType (cube_accessors ! 1), declared_count (cube_accessors ! 1),
           length indicesBin, declared_count (cube_accessors ! 2), length normalsBin))
     = (5125, 36, 72, 24, 284)"
proof -
  obtain v i n c where s: "sphere_bins M colors imageCount = (v, i, n, c)"
    by (metis prod_cases4)
  obtain cv ci cn where cb: "cube_bins M = (cv, ci, cn)"
    by (metis prod_cases3)
  let ?g = "generateUVSphere M (subdivisions_of imageCount)"
  have sv: "v = bytes32 (vertices ?g)" and si: "i = bytes32 (indices ?g)"
    and sn: "n = bytes32 (normals ?g)"
    and sc: "c = bytes32 (generateVertexColors M (length (vertices ?g)) colors)"
    using s by (simp_all add: sphere_bins_def Let_def)
  have d3v: "3 dvd length (vertices ?g)" and d3n: "3 dvd length (normals ?g)"
    by (simp_all add: generateUVSphere_vertices_length generateUVSphere_normals_length)
  have d4: "4 dvd length (generateVertexColors M (length (vertices ?g)) colors)"
    by (simp add: generateVertexColors_length)
  have sphere: "map (accessor_fits (sphere_bufferViews v i n c))
             (sphere_accessors (vertices ?g) (indices ?g) (normals ?g)
                (generateVertexColors M (length (vertices ?g)) colors)) = [True, True, True, True]"
    using d3v d3n d4
    by (simp add: sphere_accessors_def sphere_bufferViews_def accessor_fits_def declared_count_def
          component_bytes_def type_arity_def sv si sn sc)
  have cube: "map (accessor_fits (cube_bufferViews cv ci cn)) cube_accessors = [True, False, False]"
    using cube_bins_lengths[OF cb]
    by (simp add: cube_accessors_def cube_bufferViews_def accessor_fits_def declared_count_def
          component_bytes_def type_arity_def)
  have nums: "(componentType (cube_accessors ! 1), declared_count (cube_accessors ! 1),
           length ci, declared_count (cube_accessors ! 2), length cn) = (5125, 36, 72, 24, 284)"
    using cube_bins_lengths[OF cb]
    by (simp add: cube_accessors_def declared_count_def)
  show ?thesis
    using sphere cube nums by (simp add: s cb Let_def)
qed

text \<open>
  Claim C4. In the sphere path the POSITION and NORMAL accessors declare the number of
  vertices, \<open>(rings + 1) * (sectors + 1)\<close>; the COLOR accessor declares three times as
  many, because the colorizer is called with the length of the coordinate array; the
  color buffer holds one RGBA tuple per coordinate. For 8 images the counts are 28, 28
  and 84.
\<close>

theorem sphere_attribute_counts:
  "(let s = subdivisions_of imageCount;
        g = generateUVSphere M s;
        vertexColors = sphere_colors M colors imageCount;
        accessors = sphere_accessors (vertices g) (indices g) (normals g) vertexColors;
        vertexCount = (s + 1) * (s * 2 + 1)
    in map declared_count (take 3 accessors) = [vertexCount, vertexCount, 3 * vertexCount]
     \<and> length vertexColors = 4 * (3 * vertexCount)
     \<and> 0 < vertexCount)
   \<and> (let g = generateUVSphere M (subdivisions_of 8);
           vertexColors = sphere_colors M colors 8
       in map declared_count (take 3 (sphere_accessors (vertices g) (indices g) (normals g)
            vertexColors)) = [28, 28, 84])"
proof -
  have s8: "subdivisions_of 8 = 3" by (simp add: subdivisions_of_def)
  have gen: "map declared_count (take 3 (sphere_accessors
                (vertices (generateUVSphere M s)) (indices (generateUVSphere M s))
                (normals (generateUVSphere M s))
                (generateVertexColors M (length (vertices (generateUVSphere M s))) colors)))
             = [(s + 1) * (s * 2 + 1), (s + 1) * (s * 2 + 1), 3 * ((s + 1) * (s * 2 + 1))]" for s
    by (simp add: sphere_accessors_def declared_count_def generateUVSphere_vertices_length
          generateUVSphere_normals_length generateVertexColors_length)
  show ?thesis
    using gen[of "subdivisions_of imageCount"] gen[of 3]
    by (simp add: Let_def sphere_colors_def s8 generateVertexColors_length
          generateUVSphere_vertices_length)
qed

section \<open>The index list and byte slices\<close>

lemma quad_loop_prefix: "\<exists>r. quad_loop i R S j k1 k2 idx = idx @ r"
proof (induction i R S j k1 k2 idx rule: quad_loop.induct)
  case (1 i rings sectors j k1 k2 idx)
  show ?case
  proof (cases "j < sectors")
    case True
    let ?idx1 = "(if i \<noteq> 0 then idx @ [k1, k2, k1 + 1] else idx)"
    let ?idx2 = "(if int i \<noteq> int rings - 1 then ?idx1 @ [k1 + 1, k2, k2 + 1] else ?idx1)"
    obtain r where r: "quad_loop i rings sectors (j + 1) (k1 + 1) (k2 + 1) ?idx2 = ?idx2 @ r"
      using "1.IH"[OF True refl refl] by blast
    have "\<exists>p. ?idx2 = idx @ p" by simp
    then obtain p where p: "?idx2 = idx @ p" by blast
    have step: "quad_loop i rings sectors j k1 k2 idx =
                quad_loop i rings sectors (j + 1) (k1 + 1) (k2 + 1) ?idx2"
      using True by (subst quad_loop.simps) (simp add: Let_def)
    have "quad_loop i rings sectors j k1 k2 idx = ?idx2 @ r"
      by (simp only: step r)
    also have "\<dots> = idx @ p @ r"
      by (simp only: p append_assoc)
    finally show ?thesis by blast
  next
    case False
    then show ?thesis by (subst quad_loop.simps) simp
  qed
qed

lemma strip_loop_prefix: "\<exists>r. strip_loop R S i idx = idx @ r"
proof (induction R S i idx rule: strip_loop.induct)
  case (1 rings sectors i idx)
  show ?case
  proof (cases "i < rings")
    case True
    let ?q = "quad_loop i rings sectors 0 (i * (sectors + 1)) (i * (sectors + 1) + sectors + 1) idx"
    obtain r where r: "strip_loop rings sectors (i + 1) ?q = ?q @ r"
      using "1.IH"[OF True refl refl] by blast
    obtain p where p: "?q = idx @ p"
      using quad_loop_prefix by blast
    have step: "strip_loop rings sectors i idx = strip_loop rings sectors (i + 1) ?q"
      using True by (subst strip_loop.simps) (simp add: Let_def)
    have "strip_loop rings sectors i idx = ?q @ r"
      by (simp only: step r)
    also have "\<dots> = idx @ p @ r"
      by (simp only: p append_assoc)
    finally show ?thesis by blast
  next
    case False
    then show ?thesis by (subst strip_loop.simps) simp
  qed
qed

lemma strip_loop_first:
  assumes "2 \<le> R" and "1 \<le> S"
  shows "\<exists>r. strip_loop R S 0 [] = [1, S + 1, S + 2] @ r"
proof -
  have q0: "quad_loop 0 R S 0 0 (S + 1) [] = quad_loop 0 R S 1 1 (S + 2) [1, S + 1, S + 2]"
    using assms by (subst quad_loop.simps) (simp add: Let_def)
  obtain p where p: "quad_loop 0 R S 1 1 (S + 2) [1, S + 1, S + 2] = [1, S + 1, S + 2] @ p"
    using quad_loop_prefix by blast
  obtain r where r: "strip_loop R S 1 ([1, S + 1, S + 2] @ p) = ([1, S + 1, S + 2] @ p) @ r"
    using strip_loop_prefix by blast
  have "strip_loop R S 0 [] = strip_loop R S 1 (quad_loop 0 R S 0 0 (S + 1) [])"
    using assms by (subst strip_loop.simps) (simp add: Let_def)
  then have "strip_loop R S 0 [] = [1, S + 1, S + 2] @ p @ r"
    using q0 p r by simp
  then show ?thesis by blast
qed

lemma drop_bytes32: "drop (4 * k) (bytes32 ws) = bytes32 (drop k ws)"
proof (induction ws arbitrary: k)
  case Nil
  then show ?case by (simp add: bytes32_def)
next
  case (Cons w ws)
  show ?case
  proof (cases k)
    case 0
    then show ?thesis by (simp add: bytes32_def)
  next
    case (Suc m)
    have "drop (4 * m) (concat (map le32 ws)) = concat (map le32 (drop m ws))"
      using Cons.IH[of m] by (simp add: bytes32_def)
    then show ?thesis using Suc by (simp add: bytes32_def)
  qed
qed

lemma view_at_end:
  assumes "length i \<le> length c"
  shows "take (length i) (drop (length v + length n + length c) (v @ i @ n @ c))
           = drop (length c - length i) c"
proof -
  have "drop (length v + length n + length c) (v @ i @ n @ c) = drop (length n + length c) (i @ n @ c)"
    by simp
  also have "\<dots> = drop (length n + length c - length i) (n @ c)"
    using assms by simp
  also have "\<dots> = drop (length c - length i) c"
    using assms by simp
  finally show ?thesis using assms by simp
qed

lemma le32_first_differs:
  assumes "2 \<le> s" and "s \<le> 8"
  shows "le32 1 \<noteq> le32 (word_of_nat (s * 2 + 1))"
proof -
  have "s = 2 \<or> s = 3 \<or> s = 4 \<or> s = 5 \<or> s = 6 \<or> s = 7 \<or> s = 8"
    using assms by arith
  then show ?thesis
    by (elim disjE) (simp_all add: le32_def)
qed

section \<open>Buffer view order\<close>

lemma sphere_indices_first:
  "\<exists>r. indices (generateUVSphere M (subdivisions_of n)) =
         [1, word_of_nat (subdivisions_of n * 2 + 1)] @ r"
proof -
  let ?s = "subdivisions_of n"
  have "2 \<le> ?s" by (rule subdivisions_of_ge)
  then obtain r where "strip_loop ?s (?s * 2) 0 [] = [1, ?s * 2 + 1, ?s * 2 + 2] @ r"
    using strip_loop_first[of ?s "?s * 2"] by auto
  then have "indices (generateUVSphere M ?s) =
             [1, word_of_nat (?s * 2 + 1)] @ (word_of_nat (?s * 2 + 2) # Uint32Array r)"
    by (simp add: generateUVSphere_indices Uint32Array_def)
  then show ?thesis by blast
qed

lemma sphere_colors_tail:
  assumes "2 \<le> s"
  shows "\<exists>r. drop (12 * ((s + 1) * (s * 2 + 1)) - 12 * s * (s - 1))
              (generateVertexColors M (3 * ((s + 1) * (s * 2 + 1))) [])
           = [fround M (lit M ''0.8''), fround M (lit M ''0.8'')] @ r"
proof -
  define V where "V = (s + 1) * (s * 2 + 1)"
  define X where "X = s * (s - 1)"
  define q where "q = 3 * (V - X)"
  let ?xs = "generateVertexColors M (3 * V) []"
  have le: "X \<le> V"
    unfolding X_def V_def by (cases s) (simp_all add: algebra_simps)
  have pos: "0 < X" unfolding X_def using assms by simp
  have q: "q < 3 * V" unfolding q_def using le pos by arith
  have off: "12 * V - 12 * s * (s - 1) = q * 4"
    unfolding q_def X_def by (simp add: diff_mult_distrib2)
  have t: "take 4 (drop (q * 4) ?xs) = rgba M [] q"
    using q by (rule generateVertexColors_tuple)
  have "drop (q * 4) ?xs = take 4 (drop (q * 4) ?xs) @ drop 4 (drop (q * 4) ?xs)"
    by (simp only: append_take_drop_id)
  then have "drop (q * 4) ?xs =
      [fround M (lit M ''0.8''), fround M (lit M ''0.8'')]
      @ ([fround M (lit M ''0.8''), fround M (num M 1)] @ drop 4 (drop (q * 4) ?xs))"
    unfolding t by (simp add: rgba_def)
  then have "\<exists>r. drop (12 * V - 12 * s * (s - 1)) ?xs =
      [fround M (lit M ''0.8''), fround M (lit M ''0.8'')] @ r"
    unfolding off by blast
  then show ?thesis unfolding V_def .
qed

lemma bytes32_two: "bytes32 ([a, b] @ r) = (le32 a @ le32 b) @ bytes32 r"
  by (simp add: bytes32_def)

text \<open>
  Claim C2. The cube path packs position, index, normal and its three buffer views hold
  exactly those bytes. The sphere path packs position, index, normal, color, while its
  buffer views are laid out as position, normal, color, index: for the empty color list
  (and every image count) the range of the index view is the end of the color bytes, which
  differs from the index bytes.
\<close>

theorem sphere_views_misplaced:
  "(case sphere_bins M [] imageCount of
      (vertexBin, indicesBin, normalsBin, colorBin) \<Rightarrow>
        let views = sphere_bufferViews vertexBin indicesBin normalsBin colorBin;
            binData = vertexBin @ indicesBin @ normalsBin @ colorBin
        in sphere_binData vertexBin indicesBin normalsBin colorBin = Some binData
         \<and> view_bytes binData (views ! 0) = vertexBin
         \<and> view_bytes binData (views ! 3) = drop (length colorBin - length indicesBin) colorBin
         \<and> view_bytes binData (views ! 3) \<noteq> indicesBin)
   \<and> (case cube_bins M of
        (vertexBin, indicesBin, normalsBin) \<Rightarrow>
          let views = cube_bufferViews vertexBin indicesBin normalsBin;
              binData = vertexBin @ indicesBin @ normalsBin
          in cube_binData vertexBin indicesBin normalsBin = Some binData
           \<and> map (view_bytes binData) views = [vertexBin, indicesBin, normalsBin])"
proof -
  let ?s = "subdivisions_of imageCount"
  let ?V = "(?s + 1) * (?s * 2 + 1)"
  let ?g = "generateUVSphere M ?s"
  let ?cols = "generateVertexColors M (length (vertices ?g)) []"
  obtain v i n c where s: "sphere_bins M [] imageCount = (v, i, n, c)"
    by (metis prod_cases4)
  have si: "i = bytes32 (indices ?g)" and sc: "c = bytes32 ?cols"
    using s by (simp_all add: sphere_bins_def Let_def)
  have s2: "2 \<le> ?s" by (rule subdivisions_of_ge)
  have s8: "?s \<le> 8" by (simp add: subdivisions_of_def)
  have li: "length (indices ?g) = 12 * ?s * (?s - 1)"
    using s2 by (rule generateUVSphere_indices_length)
  have lv: "length (vertices ?g) = 3 * ?V"
    by (simp add: generateUVSphere_vertices_length)
  have lc: "length ?cols = 12 * ?V"
    by (simp add: generateVertexColors_length lv)
  have le: "?s * (?s - 1) \<le> ?V"
    by (cases ?s) (simp_all add: algebra_simps)
  have ic: "length i \<le> length c"
    using le by (simp add: si sc li lc)
  have v3: "view_bytes (v @ i @ n @ c) (sphere_bufferViews v i n c ! 3) = drop (length c - length i) c"
    using view_at_end[OF ic, of v n] by (simp add: view_bytes_def sphere_bufferViews_def)
  have v0: "view_bytes (v @ i @ n @ c) (sphere_bufferViews v i n c ! 0) = v"
    by (simp add: view_bytes_def sphere_bufferViews_def)
  obtain ri where ri: "indices ?g = [1, word_of_nat (?s * 2 + 1)] @ ri"
    using sphere_indices_first by blast
  obtain rc where rc: "drop (12 * ?V - 12 * ?s * (?s - 1)) ?cols
                         = [fround M (lit M ''0.8''), fround M (lit M ''0.8'')] @ rc"
    using sphere_colors_tail[OF s2, of M] by (auto simp: lv)
  have "length c - length i = 4 * (12 * ?V - 12 * ?s * (?s - 1))"
    by (simp add: si sc li lc diff_mult_distrib2)
  then have tail: "drop (length c - length i) c =
      (le32 (fround M (lit M ''0.8'')) @ le32 (fround M (lit M ''0.8''))) @ bytes32 rc"
    by (simp only: sc drop_bytes32 rc bytes32_two)
  have head: "i = (le32 1 @ le32 (word_of_nat (?s * 2 + 1))) @ bytes32 ri"
    by (simp only: si ri bytes32_two)
  have ne: "drop (length c - length i) c \<noteq> i"
  proof
    let ?f = "le32 (fround M (lit M ''0.8''))"
    let ?w = "le32 (word_of_nat (?s * 2 + 1))"
    assume "drop (length c - length i) c = i"
    then have e: "(?f @ ?f) @ bytes32 rc = (le32 1 @ ?w) @ bytes32 ri"
      using tail head by (simp only:)
    have l1: "length (?f @ ?f) = length (le32 1 @ ?w)" by simp
    have l2: "length ?f = length (le32 1)" by simp
    have "?f @ ?f = le32 1 @ ?w \<and> bytes32 rc = bytes32 ri"
      by (rule append_eq_append_conv[OF disjI1, OF l1, THEN iffD1, OF e])
    then have e': "?f @ ?f = le32 1 @ ?w" by blast
    have "?f = le32 1 \<and> ?f = ?w"
      by (rule append_eq_append_conv[OF disjI1, OF l2, THEN iffD1, OF e'])
    then have e1: "?f = le32 1" and e2: "?f = ?w" by blast+
    have "le32 1 = ?w" by (rule trans[OF e1[symmetric] e2])
    then show False using le32_first_differs[OF s2 s8] by blast
  qed
  have sphere: "sphere_binData v i n c = Some (v @ i @ n @ c)"
    by (rule sphere_binData_eq)
  obtain cv ci cn where cb: "cube_bins M = (cv, ci, cn)"
    by (metis prod_cases3)
  have cube: "map (view_bytes (cv @ ci @ cn)) (cube_bufferViews cv ci cn) = [cv, ci, cn]"
    by (simp add: view_bytes_def cube_bufferViews_def)
  show ?thesis
    using sphere v0 v3 ne cube by (simp add: s cb Let_def cube_binData_eq)
qed

section \<open>Padding and the header\<close>

lemma sphere_bins_dvd:
  assumes "sphere_bins M colors imageCount = (v, i, n, c)"
  shows "4 dvd length (v @ i @ n @ c)"
proof -
  have "4 dvd length v" "4 dvd length i" "4 dvd length n" "4 dvd length c"
    using assms by (auto simp: sphere_bins_def Let_def)
  then show ?thesis by simp
qed

lemma cube_json_length: "length (encode (stringify M (cube_scene M))) = 804"
proof -
  obtain v i n where cb: "cube_bins M = (v, i, n)"
    by (metis prod_cases3)
  show ?thesis
    using cube_bins_lengths[OF cb]
    by (simp add: cube_scene_def cb cube_glTF_def cube_accessors_def cube_bufferViews_def
          json_of_accessor_def json_of_bufferView_def encode_def quoted_def show_int_def)
qed

lemma le32_magic: "le32 0x46546c47 = [0x47, 0x6c, 0x54, 0x46]"
  by (simp add: le32_def)

lemma le32_1292: "le32 (word_of_nat 1292) = [12, 5, 0, 0]"
  by (simp add: le32_def)

lemma le32_804: "le32 (word_of_nat 804) = [36, 3, 0, 0]"
  by (simp add: le32_def)

lemma eight_zeros: "replicate 8 (0::byte) = [0, 0, 0, 0, 0, 0, 0, 0]"
  by (simp add: numeral_eq_Suc)

lemma le32_2: "le32 2 = [2, 0, 0, 0]"
  by (simp add: le32_def)

lemma take_two_parts:
  "length a + length b = k \<Longrightarrow> take k (a @ (b @ t) @ r) = a @ b"
  by auto

text \<open>
  Claim C9. In both paths the JSON chunk is the encoded scene description followed by
  fewer than four bytes 0x20, the binary chunk is the packed bytes followed by fewer than
  four bytes 0x00 (none: the packed length is already a multiple of 4), both chunk
  lengths are multiples of 4, and the buffer views lie inside the packed bytes and add up
  to their length, so no view counts a padding byte.
\<close>

theorem chunk_padding:
  "(case sphere_bins M colors imageCount of
      (vertexBin, indicesBin, normalsBin, colorBin) \<Rightarrow>
        let binData = vertexBin @ indicesBin @ normalsBin @ colorBin;
            views = sphere_bufferViews vertexBin indicesBin normalsBin colorBin;
            jsonBuf = encode (stringify M (sphere_scene M colors imageCount));
            pj = padding (length jsonBuf);
            pb = padding (length binData)
        in createPhotogrammetryModel M colors imageCount =
             Some (glb_layout (jsonBuf @ replicate pj 0x20) (binData @ replicate pb 0))
         \<and> 4 dvd length (jsonBuf @ replicate pj 0x20)
         \<and> 4 dvd length (binData @ replicate pb 0)
         \<and> pj < 4 \<and> pb = 0
         \<and> list_all (\<lambda>v. byteOffset v + byteLength v \<le> length binData) views
         \<and> sum_list (map byteLength views) = length binData)
   \<and> (case cube_bins M of
        (vertexBin, indicesBin, normalsBin) \<Rightarrow>
          let binData = vertexBin @ indicesBin @ normalsBin;
              views = cube_bufferViews vertexBin indicesBin normalsBin;
              jsonBuf = encode (stringify M (cube_scene M));
              pj = padding (length jsonBuf);
              pb = padding (length binData)
          in createCubeGLB M =
               Some (glb_layout (jsonBuf @ replicate pj 0x20) (binData @ replicate pb 0))
           \<and> 4 dvd length (jsonBuf @ replicate pj 0x20)
           \<and> 4 dvd length (binData @ replicate pb 0)
           \<and> pj < 4 \<and> pb = 0
           \<and> list_all (\<lambda>v. byteOffset v + byteLength v \<le> length binData) views
           \<and> sum_list (map byteLength views) = length binData)"
proof -
  obtain v i n c where s: "sphere_bins M colors imageCount = (v, i, n, c)"
    by (metis prod_cases4)
  obtain cv ci cn where cb: "cube_bins M = (cv, ci, cn)"
    by (metis prod_cases3)
  have sd: "4 dvd length (v @ i @ n @ c)"
    using s by (rule sphere_bins_dvd)
  have spb: "padding (length (v @ i @ n @ c)) = 0"
    using sd by (rule padding_0)
  have cl: "length (cv @ ci @ cn) = 452"
    using cube_bins_lengths[OF cb] by simp
  have cpb: "padding (length (cv @ ci @ cn)) = 0"
    unfolding cl by (simp add: padding_def)
  have sv: "list_all (\<lambda>x. byteOffset x + byteLength x \<le> length (v @ i @ n @ c))
              (sphere_bufferViews v i n c)"
    by (simp add: sphere_bufferViews_def)
  have ss: "sum_list (map byteLength (sphere_bufferViews v i n c)) = length (v @ i @ n @ c)"
    by (simp add: sphere_bufferViews_def)
  have cv: "list_all (\<lambda>x. byteOffset x + byteLength x \<le> length (cv @ ci @ cn))
              (cube_bufferViews cv ci cn)"
    by (simp add: cube_bufferViews_def)
  have cs: "sum_list (map byteLength (cube_bufferViews cv ci cn)) = length (cv @ ci @ cn)"
    by (simp add: cube_bufferViews_def)
  have sphere: "createPhotogrammetryModel M colors imageCount =
      Some (glb_layout
        (encode (stringify M (sphere_scene M colors imageCount))
         @ replicate (padding (length (encode (stringify M (sphere_scene M colors imageCount))))) 0x20)
        ((v @ i @ n @ c) @ replicate (padding (length (v @ i @ n @ c))) 0))"
    by (simp only: createPhotogrammetryModel_eq s prod.case Let_def)
  have cube: "createCubeGLB M =
      Some (glb_layout
        (encode (stringify M (cube_scene M))
         @ replicate (padding (length (encode (stringify M (cube_scene M))))) 0x20)
        ((cv @ ci @ cn) @ replicate (padding (length (cv @ ci @ cn))) 0))"
    by (simp only: createCubeGLB_eq cb prod.case Let_def)
  let ?sj = "encode (stringify M (sphere_scene M colors imageCount))"
  let ?cj = "encode (stringify M (cube_scene M))"
  have sdj: "4 dvd length (?sj @ replicate (padding (length ?sj)) 0x20)"
    using padding_dvd[of "length ?sj"] by simp
  have cdj: "4 dvd length (?cj @ replicate (padding (length ?cj)) 0x20)"
    using padding_dvd[of "length ?cj"] by simp
  have sdb: "4 dvd length ((v @ i @ n @ c) @ replicate 0 0)"
    using sd by simp
  have cdb: "4 dvd length ((cv @ ci @ cn) @ replicate 0 0)"
    using cl by simp
  show ?thesis
    unfolding s cb prod.case Let_def spb cpb
    using sphere[unfolded spb] cube[unfolded cpb] sdj cdj sdb cdb sv ss cv cs
      padding_less[of "length ?sj"] padding_less[of "length ?cj"]
    by - (intro conjI; (assumption | rule refl))
qed

text \<open>
  Claim C5. Both producers emit the 20 bytes of the header array: magic, version 2, a
  total length of 20 + 8 + padded JSON length + 8 + padded binary length, and eight
  zero bytes; the JSON chunk length follows at byte offset 20. For the cube the container
  has 1292 bytes, a JSON chunk of 804 and a binary chunk of 452.
\<close>

theorem header_occupies_twenty_bytes:
  "(\<exists>jsonChunk binChunk.
      createPhotogrammetryModel M colors imageCount =
        Some ((le32 0x46546c47 @ le32 2
               @ le32 (word_of_nat (20 + 8 + length jsonChunk + 8 + length binChunk))
               @ replicate 8 0)
              @ (le32 (word_of_nat (length jsonChunk)) @ le32 0x4e4f534a) @ jsonChunk
              @ (le32 (word_of_nat (length binChunk)) @ le32 0x004e4942) @ binChunk))
   \<and> (\<exists>jsonChunk binChunk.
      createCubeGLB M =
        Some ((le32 0x46546c47 @ le32 2
               @ le32 (word_of_nat (20 + 8 + length jsonChunk + 8 + length binChunk))
               @ replicate 8 0)
              @ (le32 (word_of_nat (length jsonChunk)) @ le32 0x4e4f534a) @ jsonChunk
              @ (le32 (word_of_nat (length binChunk)) @ le32 0x004e4942) @ binChunk)
      \<and> length jsonChunk = 804 \<and> length binChunk = 452)
   \<and> (\<exists>glb. createCubeGLB M = Some glb \<and> length glb = 1292
        \<and> take 24 glb = [0x47, 0x6c, 0x54, 0x46, 2, 0, 0, 0, 12, 5, 0, 0,
                          0, 0, 0, 0, 0, 0, 0, 0, 36, 3, 0, 0])"
proof -
  obtain v i n c where s: "sphere_bins M colors imageCount = (v, i, n, c)"
    by (metis prod_cases4)
  obtain cv ci cn where cb: "cube_bins M = (cv, ci, cn)"
    by (metis prod_cases3)
  have cl: "length (cv @ ci @ cn) = 452"
    using cube_bins_lengths[OF cb] by simp
  let ?cj = "encode (stringify M (cube_scene M))"
  have pj: "padding (length ?cj) = 0"
    by (simp add: cube_json_length padding_def)
  have pb: "padding (length (cv @ ci @ cn)) = 0"
    unfolding cl by (simp add: padding_def)
  have cube: "createCubeGLB M = Some (glb_layout ?cj (cv @ ci @ cn))"
    using pj pb by (simp add: createCubeGLB_eq cb Let_def)
  have layout: "glb_layout j b =
        (le32 0x46546c47 @ le32 2 @ le32 (word_of_nat (20 + 8 + length j + 8 + length b))
         @ replicate 8 0)
        @ (le32 (word_of_nat (length j)) @ le32 0x4e4f534a) @ j
        @ (le32 (word_of_nat (length b)) @ le32 0x004e4942) @ b" for j b
    by (simp only: glb_layout_def of_nat_numeral)
  have "\<exists>j b. createPhotogrammetryModel M colors imageCount = Some (glb_layout j b)"
    unfolding createPhotogrammetryModel_eq s prod.case Let_def by blast
  then have a: "\<exists>jsonChunk binChunk.
      createPhotogrammetryModel M colors imageCount =
        Some ((le32 0x46546c47 @ le32 2
               @ le32 (word_of_nat (20 + 8 + length jsonChunk + 8 + length binChunk))
               @ replicate 8 0)
              @ (le32 (word_of_nat (length jsonChunk)) @ le32 0x4e4f534a) @ jsonChunk
              @ (le32 (word_of_nat (length binChunk)) @ le32 0x004e4942) @ binChunk)"
    unfolding layout .
  have b: "createCubeGLB M =
        Some ((le32 0x46546c47 @ le32 2
               @ le32 (word_of_nat (20 + 8 + length ?cj + 8 + length (cv @ ci @ cn)))
               @ replicate 8 0)
              @ (le32 (word_of_nat (length ?cj)) @ le32 0x4e4f534a) @ ?cj
              @ (le32 (word_of_nat (length (cv @ ci @ cn))) @ le32 0x004e4942) @ (cv @ ci @ cn))"
    using cube unfolding layout .
  have len: "length (glb_layout ?cj (cv @ ci @ cn)) = 1292"
    using cl by (simp add: glb_layout_def cube_json_length)
  have hd: "take 24 (glb_layout ?cj (cv @ ci @ cn)) =
              [0x47, 0x6c, 0x54, 0x46, 2, 0, 0, 0, 12, 5, 0, 0,
               0, 0, 0, 0, 0, 0, 0, 0, 36, 3, 0, 0]"
  proof -
    have n: "20 + 8 + length ?cj + 8 + length (cv @ ci @ cn) = 1292"
      using cl by (simp add: cube_json_length)
    have k: "length (le32 0x46546c47 @ le32 2 @ le32 (word_of_nat 1292) @ replicate 8 0)
             + length (le32 (word_of_nat (length ?cj))) = 24"
      by simp
    have "take 24 (glb_layout ?cj (cv @ ci @ cn)) =
            (le32 0x46546c47 @ le32 2 @ le32 (word_of_nat 1292) @ replicate 8 0)
            @ le32 (word_of_nat (length ?cj))"
      unfolding glb_layout_def n by (rule take_two_parts[OF k])
    then show ?thesis
      by (simp only: cube_json_length le32_magic le32_2 le32_1292 le32_804 eight_zeros
            append_Cons append_Nil)
  qed
  show ?thesis
    using a b cl cube_json_length[of M] cube len hd by blast
qed

end
